theory Spec2Isabelle
  imports Complex_Main "HOL-Library.AList"
begin

section \<open>Values and exceptions of the Python program\<close>

text \<open>
  The program of \<^verbatim>\<open>backend/app/main.py\<close> passes untyped JSON values around
  (\<^verbatim>\<open>Dict[str, Any]\<close>). They are modelled by one datatype. \<^verbatim>\<open>bytes\<close> are a \<^typ>\<open>string\<close>,
  and a Python \<^verbatim>\<open>str\<close> is the \<^typ>\<open>string\<close> of its UTF-8 bytes (a lone surrogate, which
  only a \<^verbatim>\<open>\u\<close> escape of JSON can bring in, is written with the three bytes that the
  encoding scheme gives to its number); what Python counts by code points is counted by
  code points here. A dictionary is an association list read with \<^const>\<open>map_of\<close> and written
  with \<^const>\<open>AList.update\<close>, which keeps the insertion order as Python does. A float carries
  the rational that the binary64 number is (the sign of a zero is dropped: nothing in the
  program formats a float); the two infinities and NaN have constructors of their own.
\<close>

datatype json =
    JNull
  | JBool bool
  | JInt int
  | JFloat rat
  | JInfinity bool
  | JNaN
  | JStr string
  | JArr "json list"
  | JObj "(string \<times> json) list"

type_synonym dict = "(string \<times> json) list"

datatype exc_class =
    KeyError | IndexError | TypeError | AttributeError | JSONDecodeError
  | UnicodeDecodeError | UnicodeEncodeError | RequestException | HTTPError

text \<open>
  \<open>Raised c m\<close> is an exception of class \<open>c\<close> whose \<^verbatim>\<open>str()\<close> is \<open>m\<close>;
  \<open>HTTPException s d\<close> is FastAPI's exception with its status code and detail. All of
  them are subclasses of \<^verbatim>\<open>Exception\<close>.
\<close>

datatype exn = Raised exc_class string | HTTPException nat string

fun digit_char :: "nat \<Rightarrow> char" where
  "digit_char n = ''0123456789'' ! (n mod 10)"

text \<open>\<^verbatim>\<open>str(n)\<close> for a natural number.\<close>

fun show_nat :: "nat \<Rightarrow> string" where
  "show_nat n = (if n < 10 then [digit_char n] else show_nat (n div 10) @ [digit_char n])"

declare show_nat.simps [simp del]

text \<open>
  \<^verbatim>\<open>str(e)\<close>. For an \<^verbatim>\<open>HTTPException\<close> it is the status code, a colon and the detail, as
  Starlette defines it.
\<close>

fun exn_str :: "exn \<Rightarrow> string" where
  "exn_str (Raised c m) = m"
| "exn_str (HTTPException s d) = show_nat s @ '': '' @ d"

definition type_name :: "json \<Rightarrow> string" where
  "type_name v = (case v of
       JNull \<Rightarrow> ''NoneType'' | JBool _ \<Rightarrow> ''bool'' | JInt _ \<Rightarrow> ''int''
     | JFloat _ \<Rightarrow> ''float'' | JInfinity _ \<Rightarrow> ''float'' | JNaN \<Rightarrow> ''float''
     | JStr _ \<Rightarrow> ''str'' | JArr _ \<Rightarrow> ''list'' | JObj _ \<Rightarrow> ''dict'')"

definition quoted :: "string \<Rightarrow> string" where
  "quoted s = [CHR 0x27] @ s @ [CHR 0x27]"

text \<open>A computation that may raise: \<open>Inl\<close> is the exception.\<close>

definition and_then :: "exn + 'a \<Rightarrow> ('a \<Rightarrow> exn + 'b) \<Rightarrow> exn + 'b" where
  "and_then m f = (case m of Inl e \<Rightarrow> Inl e | Inr x \<Rightarrow> f x)"

text \<open>\<^verbatim>\<open>v[k]\<close> for a string key \<open>k\<close>.\<close>

definition getitem :: "json \<Rightarrow> string \<Rightarrow> exn + json" where
  "getitem v k = (case v of
       JObj kvs \<Rightarrow> (case map_of kvs k of
                      Some x \<Rightarrow> Inr x
                    | None \<Rightarrow> Inl (Raised KeyError (quoted k)))
     | JArr _ \<Rightarrow> Inl (Raised TypeError ''list indices must be integers or slices, not str'')
     | JStr _ \<Rightarrow> Inl (Raised TypeError (''string indices must be integers, not '' @ quoted ''str''))
     | _ \<Rightarrow> Inl (Raised TypeError (quoted (type_name v) @ '' object is not subscriptable'')))"

text \<open>
  The code points of a text: a byte from 128 to 191 continues the code point that the byte
  before it belongs to.
\<close>

definition is_cont :: "char \<Rightarrow> bool" where
  "is_cont c = (128 \<le> (of_char c :: nat) \<and> (of_char c :: nat) < 192)"

fun code_points :: "string \<Rightarrow> string list" where
  "code_points [] = []"
| "code_points (c # cs) = (case code_points cs of
       (b # g) # gs \<Rightarrow> (if is_cont b then (c # b # g) # gs else [c] # (b # g) # gs)
     | _ \<Rightarrow> [[c]])"

text \<open>\<^verbatim>\<open>v[0]\<close>. The keys of a decoded JSON object are strings, so the key \<open>0\<close> is never there.\<close>

definition getitem0 :: "json \<Rightarrow> exn + json" where
  "getitem0 v = (case v of
       JArr xs \<Rightarrow> (case xs of
                     [] \<Rightarrow> Inl (Raised IndexError ''list index out of range'')
                   | x # _ \<Rightarrow> Inr x)
     | JStr s \<Rightarrow> (case s of
                    [] \<Rightarrow> Inl (Raised IndexError ''string index out of range'')
                  | c # cs \<Rightarrow> Inr (JStr (c # takeWhile is_cont cs)))
     | JObj _ \<Rightarrow> Inl (Raised KeyError ''0'')
     | _ \<Rightarrow> Inl (Raised TypeError (quoted (type_name v) @ '' object is not subscriptable'')))"

text \<open>\<^verbatim>\<open>v.get(k, d)\<close>: only a dictionary has the method.\<close>

definition py_get :: "json \<Rightarrow> string \<Rightarrow> json \<Rightarrow> exn + json" where
  "py_get v k d = (case v of
       JObj kvs \<Rightarrow> Inr (case map_of kvs k of Some x \<Rightarrow> x | None \<Rightarrow> d)
     | _ \<Rightarrow> Inl (Raised AttributeError
                 (quoted (type_name v) @ '' object has no attribute '' @ quoted ''get'')))"

text \<open>Truth value of a Python object.\<close>

fun truthy :: "json \<Rightarrow> bool" where
  "truthy JNull = False"
| "truthy (JBool b) = b"
| "truthy (JInt i) = (i \<noteq> 0)"
| "truthy (JFloat r) = (r \<noteq> 0)"
| "truthy (JInfinity _) = True"
| "truthy JNaN = True"
| "truthy (JStr s) = (s \<noteq> [])"
| "truthy (JArr xs) = (xs \<noteq> [])"
| "truthy (JObj kvs) = (kvs \<noteq> [])"

text \<open>
  \<^verbatim>\<open>str.strip()\<close> removes the code points that Python takes for whitespace from both ends:
  U+0009 to U+000D, U+001C to U+0020, U+0085, U+00A0, U+1680, U+2000 to U+200A, U+2028,
  U+2029, U+202F, U+205F and U+3000.
\<close>

definition whitespace :: "string list" where
  "whitespace =
     map (\<lambda>c. [c]) [CHR 0x09, CHR 0x0A, CHR 0x0B, CHR 0x0C, CHR 0x0D,
                     CHR 0x1C, CHR 0x1D, CHR 0x1E, CHR 0x1F, CHR 0x20]
     @ [[CHR 0xC2, CHR 0x85], [CHR 0xC2, CHR 0xA0], [CHR 0xE1, CHR 0x9A, CHR 0x80]]
     @ map (\<lambda>c. [CHR 0xE2, CHR 0x80, c])
         [CHR 0x80, CHR 0x81, CHR 0x82, CHR 0x83, CHR 0x84, CHR 0x85, CHR 0x86, CHR 0x87,
          CHR 0x88, CHR 0x89, CHR 0x8A, CHR 0xA8, CHR 0xA9, CHR 0xAF]
     @ [[CHR 0xE2, CHR 0x81, CHR 0x9F], [CHR 0xE3, CHR 0x80, CHR 0x80]]"

definition py_isspace :: "string \<Rightarrow> bool" where
  "py_isspace cp = (cp \<in> set whitespace)"

definition py_strip :: "string \<Rightarrow> string" where
  "py_strip s = concat (rev (dropWhile py_isspace (rev (dropWhile py_isspace (code_points s)))))"


section \<open>The JSON decoder of the standard library\<close>

text \<open>
  \<^verbatim>\<open>json.loads\<close> belongs to Python's standard library. The streaming client takes the
  decoder as a parameter (the field \<open>loads\<close> of the environment; \<open>None\<close> stands for
  \<^verbatim>\<open>json.JSONDecodeError\<close>), so that what is proved for every decoder holds for the
  library's, whatever it does.
  \<open>json_decode\<close> below is a decoder for the JSON grammar, used where a concrete event
  stream is evaluated. It reads the text one character at a time into tokens and feeds the
  tokens to a pushdown automaton; both recursions are structural. A \<^verbatim>\<open>\u\<close> escape gives
  the UTF-8 bytes of its code point, a high surrogate followed by the escape of a low one the
  code point of the pair; a float literal is rounded to the nearest binary64 number, ties to
  even, and to an infinity beyond the largest one. The limits that the interpreter puts on
  the depth of nesting and on the digits of an integer are not modelled.
\<close>

datatype token = LBrace | RBrace | LBrack | RBrack | Comma | Colon | Quoted string | Word string

datatype lexmode =
    Idle
  | InWord string
  | InString string
  | InEscape string
  | InUnicode string string
  | InHigh string nat
  | InHighEscape string nat
  | InLow string nat string

definition is_json_ws :: "char \<Rightarrow> bool" where
  "is_json_ws c = (c \<in> set [CHR '' '', CHR 0x09, CHR 0x0A, CHR 0x0D])"

definition is_digit :: "char \<Rightarrow> bool" where
  "is_digit c = (c \<in> set ''0123456789'')"

definition is_word_char :: "char \<Rightarrow> bool" where
  "is_word_char c =
     (c \<in> set ''0123456789+-.abcdefghijklmnopqrstuvwxyzABCDEFGHIJKLMNOPQRSTUVWXYZ'')"

definition punct :: "char \<Rightarrow> token option" where
  "punct c = map_of [(CHR ''{'', LBrace), (CHR ''}'', RBrace), (CHR ''['', LBrack),
                     (CHR '']'', RBrack), (CHR '','', Comma), (CHR '':'', Colon)] c"

definition unescape :: "char \<Rightarrow> char option" where
  "unescape c = map_of [(CHR 0x22, CHR 0x22), (CHR 0x5C, CHR 0x5C), (CHR ''/'', CHR ''/''),
                        (CHR ''b'', CHR 0x08), (CHR ''f'', CHR 0x0C), (CHR ''n'', CHR 0x0A),
                        (CHR ''r'', CHR 0x0D), (CHR ''t'', CHR 0x09)] c"

definition hex_digit :: "char \<Rightarrow> nat option" where
  "hex_digit c = map_of (zip ''0123456789abcdef'' [0 ..< 16] @ zip ''ABCDEF'' [10 ..< 16]) c"

definition hex_value :: "string \<Rightarrow> nat" where
  "hex_value h = foldl (\<lambda>n c. 16 * n + (case hex_digit c of Some d \<Rightarrow> d | None \<Rightarrow> 0)) 0 h"

definition idle_step :: "char \<Rightarrow> (token list \<times> lexmode) option" where
  "idle_step c =
     (if is_json_ws c then Some ([], Idle)
      else if c = CHR 0x22 then Some ([], InString [])
      else if is_word_char c then Some ([], InWord [c])
      else (case punct c of Some t \<Rightarrow> Some ([t], Idle) | None \<Rightarrow> None))"

definition utf8 :: "nat \<Rightarrow> string" where
  "utf8 v =
     (if v < 128 then [char_of v]
      else if v < 2048 then [char_of (192 + v div 64), char_of (128 + v mod 64)]
      else if v < 65536
        then [char_of (224 + v div 4096), char_of (128 + v div 64 mod 64), char_of (128 + v mod 64)]
      else [char_of (240 + v div 262144), char_of (128 + v div 4096 mod 64),
            char_of (128 + v div 64 mod 64), char_of (128 + v mod 64)])"

definition is_high :: "nat \<Rightarrow> bool" where
  "is_high v = (55296 \<le> v \<and> v < 56320)"

definition is_low :: "nat \<Rightarrow> bool" where
  "is_low v = (56320 \<le> v \<and> v < 57344)"

text \<open>
  One character: the tokens it completes and the next mode. Accumulators are reversed.
  First the character inside a string literal, the character after a backslash, and the
  code point \<open>v\<close> of a complete \<^verbatim>\<open>\u\<close> escape: a high surrogate waits for its partner.
\<close>

definition string_step :: "string \<Rightarrow> char \<Rightarrow> (token list \<times> lexmode) option" where
  "string_step s c =
     (if c = CHR 0x22 then Some ([Quoted (rev s)], Idle)
      else if c = CHR 0x5C then Some ([], InEscape s)
      else if (of_char c :: nat) < 32 then None
      else Some ([], InString (c # s)))"

definition escape_step :: "string \<Rightarrow> char \<Rightarrow> (token list \<times> lexmode) option" where
  "escape_step s c =
     (if c = CHR ''u'' then Some ([], InUnicode s [])
      else (case unescape c of
              None \<Rightarrow> None
            | Some d \<Rightarrow> Some ([], InString (d # s))))"

definition unicode_done :: "string \<Rightarrow> nat \<Rightarrow> lexmode" where
  "unicode_done s v = (if is_high v then InHigh s v else InString (rev (utf8 v) @ s))"

definition lex_step :: "lexmode \<Rightarrow> char \<Rightarrow> (token list \<times> lexmode) option" where
  "lex_step m c = (case m of
       Idle \<Rightarrow> idle_step c
     | InWord w \<Rightarrow>
         (if is_word_char c then Some ([], InWord (c # w))
          else (case idle_step c of
                  None \<Rightarrow> None
                | Some (ts, m') \<Rightarrow> Some (Word (rev w) # ts, m')))
     | InString s \<Rightarrow> string_step s c
     | InEscape s \<Rightarrow> escape_step s c
     | InUnicode s h \<Rightarrow>
         (if hex_digit c = None then None
          else if length h < 3 then Some ([], InUnicode s (c # h))
          else Some ([], unicode_done s (hex_value (rev (c # h)))))
     | InHigh s v \<Rightarrow>
         (if c = CHR 0x5C then Some ([], InHighEscape s v)
          else string_step (rev (utf8 v) @ s) c)
     | InHighEscape s v \<Rightarrow>
         (if c = CHR ''u'' then Some ([], InLow s v [])
          else escape_step (rev (utf8 v) @ s) c)
     | InLow s v h \<Rightarrow>
         (if hex_digit c = None then None
          else if length h < 3 then Some ([], InLow s v (c # h))
          else if is_low (hex_value (rev (c # h)))
            then Some ([], InString (rev (utf8 (65536 + (v - 55296) * 1024
                                                + (hex_value (rev (c # h)) - 56320))) @ s))
          else Some ([], unicode_done (rev (utf8 v) @ s) (hex_value (rev (c # h))))))"

fun lex :: "lexmode \<Rightarrow> string \<Rightarrow> token list option" where
  "lex m [] = (case m of Idle \<Rightarrow> Some [] | InWord w \<Rightarrow> Some [Word (rev w)] | _ \<Rightarrow> None)"
| "lex m (c # cs) =
     (case lex_step m c of
        None \<Rightarrow> None
      | Some (ts, m') \<Rightarrow> (case lex m' cs of None \<Rightarrow> None | Some us \<Rightarrow> Some (ts @ us)))"

text \<open>
  The words of JSON: the literals (Python also accepts \<^verbatim>\<open>NaN\<close>, \<^verbatim>\<open>Infinity\<close> and
  \<^verbatim>\<open>-Infinity\<close>) and the numbers \<^verbatim>\<open>-?(0|[1-9][0-9]*)(\.[0-9]+)?([eE][-+]?[0-9]+)?\<close>;
  a number without fraction and exponent is an \<^verbatim>\<open>int\<close>, any other a \<^verbatim>\<open>float\<close>.
\<close>

definition digits_value :: "string \<Rightarrow> nat" where
  "digits_value ds = foldl (\<lambda>n c. 10 * n + (of_char c - 48)) 0 ds"

definition int_part_ok :: "string \<Rightarrow> bool" where
  "int_part_ok ds = (ds \<noteq> [] \<and> (ds = ''0'' \<or> hd ds \<noteq> CHR ''0''))"

text \<open>The fraction after the integer part: its digits (empty when there is none) and the rest.\<close>

definition split_fraction :: "string \<Rightarrow> (string \<times> string) option" where
  "split_fraction r = (case r of
       c # r' \<Rightarrow>
         (if c = CHR ''.''
          then (if takeWhile is_digit r' = [] then None
                else Some (takeWhile is_digit r', dropWhile is_digit r'))
          else Some ([], r))
     | [] \<Rightarrow> Some ([], []))"

text \<open>The exponent at the end of a number: \<open>None\<close> when ill-formed, \<open>Some None\<close> when absent.\<close>

definition split_exponent :: "string \<Rightarrow> int option option" where
  "split_exponent r = (case r of
       [] \<Rightarrow> Some None
     | c # r' \<Rightarrow>
         (if c = CHR ''e'' \<or> c = CHR ''E''
          then (case r' of
                  [] \<Rightarrow> None
                | s # ds \<Rightarrow>
                    (if s = CHR ''-'' \<and> ds \<noteq> [] \<and> list_all is_digit ds
                       then Some (Some (- int (digits_value ds)))
                     else if s = CHR ''+'' \<and> ds \<noteq> [] \<and> list_all is_digit ds
                       then Some (Some (int (digits_value ds)))
                     else if list_all is_digit r' then Some (Some (int (digits_value r')))
                     else None))
          else None))"

definition scale10 :: "rat \<Rightarrow> int \<Rightarrow> rat" where
  "scale10 x e = (if 0 \<le> e then x * 10 ^ nat e else x / 10 ^ nat (- e))"

definition pow2 :: "int \<Rightarrow> rat" where
  "pow2 e = (if 0 \<le> e then 2 ^ nat e else 1 / 2 ^ nat (- e))"

fun bitlen :: "nat \<Rightarrow> nat" where
  "bitlen n = (if n = 0 then 0 else Suc (bitlen (n div 2)))"

declare bitlen.simps [simp del]

definition round_half_even :: "rat \<Rightarrow> int" where
  "round_half_even x =
     (if x - of_int \<lfloor>x\<rfloor> < 1 / 2 then \<lfloor>x\<rfloor>
      else if 1 / 2 < x - of_int \<lfloor>x\<rfloor> then \<lfloor>x\<rfloor> + 1
      else if even \<lfloor>x\<rfloor> then \<lfloor>x\<rfloor> else \<lfloor>x\<rfloor> + 1)"

text \<open>
  The binary64 number nearest to a rational \<open>x \<ge> 0\<close>, with the sign given apart: \<open>e\<close> is
  the exponent of the leading bit of \<open>x\<close>, and the spacing of the numbers around \<open>x\<close> is two
  to the power \<open>e - 52\<close>, but not less than two to the power \<open>-1074\<close>.
\<close>

definition binary64 :: "bool \<Rightarrow> rat \<Rightarrow> json" where
  "binary64 neg x =
     (if x \<le> 0 then JFloat 0
      else (let g = int (bitlen (nat (fst (quotient_of x)))) - int (bitlen (nat (snd (quotient_of x))));
                e = (if pow2 g \<le> x then g else g - 1);
                spacing = pow2 (max (e - 52) (- 1074));
                v = of_int (round_half_even (x / spacing)) * spacing
            in if pow2 1024 \<le> v then JInfinity (\<not> neg)
               else JFloat (if neg then - v else v)))"

definition number_value :: "string \<Rightarrow> json option" where
  "number_value w =
     (let neg = (w \<noteq> [] \<and> hd w = CHR ''-'');
          body = (if neg then tl w else w);
          ip = takeWhile is_digit body
      in if \<not> int_part_ok ip then None
         else (case split_fraction (dropWhile is_digit body) of
                 None \<Rightarrow> None
               | Some (fp, r) \<Rightarrow>
                   (case split_exponent r of
                      None \<Rightarrow> None
                    | Some ex \<Rightarrow>
                        (if fp = [] \<and> ex = None
                         then Some (JInt ((if neg then -1 else 1) * int (digits_value ip)))
                         else Some (binary64 neg
                           (scale10 (of_nat (digits_value (ip @ fp)))
                              ((case ex of None \<Rightarrow> 0 | Some e \<Rightarrow> e) - int (length fp))))))))"

definition word_value :: "string \<Rightarrow> json option" where
  "word_value w =
     (if w = ''true'' then Some (JBool True)
      else if w = ''false'' then Some (JBool False)
      else if w = ''null'' then Some JNull
      else if w = ''NaN'' then Some JNaN
      else if w = ''Infinity'' then Some (JInfinity True)
      else if w = ''-Infinity'' then Some (JInfinity False)
      else number_value w)"

text \<open>
  The automaton. A frame on the stack is an array or an object under construction;
  \<open>MemberFrame kvs k\<close> is an object waiting for the value of its key \<open>k\<close>. A key that
  occurs twice keeps its first position and takes the last value, as a Python \<^verbatim>\<open>dict\<close> does.
\<close>

datatype frame =
    ArrayFrame "json list"
  | ObjectFrame dict
  | MemberFrame dict string

datatype phase =
    WantValue
  | WantValueOrClose
  | WantKeyOrClose
  | WantKey
  | WantColon string
  | AfterValue
  | Finished json

definition deliver :: "json \<Rightarrow> frame list \<Rightarrow> (phase \<times> frame list) option" where
  "deliver v st = (case st of
       [] \<Rightarrow> Some (Finished v, [])
     | ArrayFrame xs # st' \<Rightarrow> Some (AfterValue, ArrayFrame (xs @ [v]) # st')
     | MemberFrame kvs k # st' \<Rightarrow> Some (AfterValue, ObjectFrame (AList.update k v kvs) # st')
     | ObjectFrame _ # _ \<Rightarrow> None)"

definition close_array :: "frame list \<Rightarrow> (phase \<times> frame list) option" where
  "close_array st = (case st of ArrayFrame xs # st' \<Rightarrow> deliver (JArr xs) st' | _ \<Rightarrow> None)"

definition close_object :: "frame list \<Rightarrow> (phase \<times> frame list) option" where
  "close_object st = (case st of ObjectFrame kvs # st' \<Rightarrow> deliver (JObj kvs) st' | _ \<Rightarrow> None)"

definition start_value :: "frame list \<Rightarrow> token \<Rightarrow> (phase \<times> frame list) option" where
  "start_value st t = (case t of
       LBrack \<Rightarrow> Some (WantValueOrClose, ArrayFrame [] # st)
     | LBrace \<Rightarrow> Some (WantKeyOrClose, ObjectFrame [] # st)
     | Quoted s \<Rightarrow> deliver (JStr s) st
     | Word w \<Rightarrow> (case word_value w of None \<Rightarrow> None | Some v \<Rightarrow> deliver v st)
     | _ \<Rightarrow> None)"

definition pda_step :: "phase \<Rightarrow> frame list \<Rightarrow> token \<Rightarrow> (phase \<times> frame list) option" where
  "pda_step ph st t = (case ph of
       WantValue \<Rightarrow> start_value st t
     | WantValueOrClose \<Rightarrow> (if t = RBrack then close_array st else start_value st t)
     | WantKeyOrClose \<Rightarrow>
         (case t of Quoted k \<Rightarrow> Some (WantColon k, st) | RBrace \<Rightarrow> close_object st | _ \<Rightarrow> None)
     | WantKey \<Rightarrow> (case t of Quoted k \<Rightarrow> Some (WantColon k, st) | _ \<Rightarrow> None)
     | WantColon k \<Rightarrow>
         (case (t, st) of
            (Colon, ObjectFrame kvs # st') \<Rightarrow> Some (WantValue, MemberFrame kvs k # st')
          | _ \<Rightarrow> None)
     | AfterValue \<Rightarrow>
         (case t of
            Comma \<Rightarrow> (case st of
                        ArrayFrame _ # _ \<Rightarrow> Some (WantValue, st)
                      | ObjectFrame _ # _ \<Rightarrow> Some (WantKey, st)
                      | _ \<Rightarrow> None)
          | RBrack \<Rightarrow> close_array st
          | RBrace \<Rightarrow> close_object st
          | _ \<Rightarrow> None)
     | Finished _ \<Rightarrow> None)"

fun pda :: "phase \<Rightarrow> frame list \<Rightarrow> token list \<Rightarrow> json option" where
  "pda ph st [] = (case ph of Finished v \<Rightarrow> Some v | _ \<Rightarrow> None)"
| "pda ph st (t # ts) =
     (case pda_step ph st t of None \<Rightarrow> None | Some (ph', st') \<Rightarrow> pda ph' st' ts)"

definition json_decode :: "string \<Rightarrow> json option" where
  "json_decode s = (case lex Idle s of None \<Rightarrow> None | Some ts \<Rightarrow> pda WantValue [] ts)"


section \<open>Library functions on values\<close>

text \<open>\<^verbatim>\<open>len(v)\<close>.\<close>

definition py_len :: "json \<Rightarrow> exn + nat" where
  "py_len v = (case v of
       JStr s \<Rightarrow> Inr (length (code_points s))
     | JArr xs \<Rightarrow> Inr (length xs)
     | JObj kvs \<Rightarrow> Inr (length (AList.clearjunk kvs))
     | _ \<Rightarrow> Inl (Raised TypeError
                 (''object of type '' @ quoted (type_name v) @ '' has no len()'')))"

fun is_infix :: "string \<Rightarrow> string \<Rightarrow> bool" where
  "is_infix k [] = (k = [])"
| "is_infix k (c # cs) = (take (length k) (c # cs) = k \<or> is_infix k cs)"

text \<open>\<^verbatim>\<open>k in v\<close> for a string \<open>k\<close>.\<close>

definition py_contains :: "string \<Rightarrow> json \<Rightarrow> exn + bool" where
  "py_contains k v = (case v of
       JObj kvs \<Rightarrow> Inr (map_of kvs k \<noteq> None)
     | JArr xs \<Rightarrow> Inr (JStr k \<in> set xs)
     | JStr s \<Rightarrow> Inr (is_infix k s)
     | _ \<Rightarrow> Inl (Raised TypeError
                 (''argument of type '' @ quoted (type_name v) @ '' is not iterable'')))"

text \<open>The items that \<^verbatim>\<open>for item in v\<close> visits.\<close>

definition py_iter :: "json \<Rightarrow> exn + json list" where
  "py_iter v = (case v of
       JArr xs \<Rightarrow> Inr xs
     | JStr s \<Rightarrow> Inr (map JStr (code_points s))
     | JObj kvs \<Rightarrow> Inr (map (\<lambda>kv. JStr (fst kv)) (AList.clearjunk kvs))
     | _ \<Rightarrow> Inl (Raised TypeError (quoted (type_name v) @ '' object is not iterable'')))"

fun join_with :: "string \<Rightarrow> string list \<Rightarrow> string" where
  "join_with sep [] = []"
| "join_with sep [s] = s"
| "join_with sep (s # t # r) = s @ sep @ join_with sep (t # r)"

fun str_items :: "nat \<Rightarrow> json list \<Rightarrow> exn + string list" where
  "str_items i [] = Inr []"
| "str_items i (v # vs) = (case v of
       JStr s \<Rightarrow> and_then (str_items (Suc i) vs) (\<lambda>r. Inr (s # r))
     | _ \<Rightarrow> Inl (Raised TypeError (''sequence item '' @ show_nat i @
                  '': expected str instance, '' @ type_name v @ '' found'')))"

text \<open>\<^verbatim>\<open>sep.join(vs)\<close>: every item has to be a \<^verbatim>\<open>str\<close>.\<close>

definition py_join :: "string \<Rightarrow> json list \<Rightarrow> exn + string" where
  "py_join sep vs = and_then (str_items 0 vs) (\<lambda>ss. Inr (join_with sep ss))"

definition b64_char :: "nat \<Rightarrow> char" where
  "b64_char n =
     ''ABCDEFGHIJKLMNOPQRSTUVWXYZabcdefghijklmnopqrstuvwxyz0123456789+/'' ! (n mod 64)"

text \<open>\<^verbatim>\<open>base64.b64encode(bs).decode()\<close>.\<close>

fun b64encode :: "string \<Rightarrow> string" where
  "b64encode [] = []"
| "b64encode [a] =
     [b64_char (of_char a div 4), b64_char (of_char a mod 4 * 16), CHR ''='', CHR ''='']"
| "b64encode [a, b] =
     [b64_char (of_char a div 4), b64_char (of_char a mod 4 * 16 + of_char b div 16),
      b64_char (of_char b mod 16 * 4), CHR ''='']"
| "b64encode (a # b # c # r) =
     [b64_char (of_char a div 4), b64_char (of_char a mod 4 * 16 + of_char b div 16),
      b64_char (of_char b mod 16 * 4 + of_char c div 64), b64_char (of_char c mod 64)]
     @ b64encode r"

section \<open>The remote services\<close>

text \<open>
  One line of a streamed body as \<^verbatim>\<open>resp.iter_lines()\<close> hands it over: bytes that decode
  as UTF-8 to the given text (\<open>Raw []\<close> is the empty keep-alive line), bytes that do not
  (with the message of the \<^verbatim>\<open>UnicodeDecodeError\<close>), or the failure of the connection in
  the middle of the body (the exception that \<^verbatim>\<open>iter_lines\<close> raises). The body is a finite
  list of lines: a connection that stalls for ever is outside the model.
\<close>

datatype raw_line = Raw string | Undecodable string | ConnectionLost string

record response =
  status_code :: nat
  reason :: string
  resp_url :: string
  resp_content :: string
  resp_text :: string
  resp_json :: "string + json"
  resp_lines :: "raw_line list"

record prompt =
  page_title :: json
  element_count :: nat
  viewport_width :: json
  viewport_height :: json
  image_url :: string
  instruction :: string

text \<open>
  The requests the program sends, by what varies in their payload: the browser-side
  script call and the content call for a URL, the screenshot at a viewport of a given width
  and height, the fallback screenshot with its optional \<^verbatim>\<open>addScriptTag\<close> and
  \<^verbatim>\<open>addStyleTag\<close> entries (\<open>None\<close>: the key is absent), and the chat completion, given by
  the values interpolated into the prompt template.
\<close>

datatype request =
    FunctionReq string
  | ContentReq string
  | ViewportReq string nat nat
  | ScreenshotReq string "dict list option" "dict list option"
  | ChatReq prompt

text \<open>
  What lies outside the program: the JSON decoder and \<^verbatim>\<open>requests.post\<close>, which either
  raises (connection refused, timeout) or returns a response. The answer is a function of
  the request; one run of a pipeline sends no request twice, so nothing is lost by that.
  Headers, tokens and timeouts are constants of the program and are left out of the
  requests. Every exception of the model is a subclass of \<^verbatim>\<open>Exception\<close>; interrupts of the
  interpreter are not modelled.
\<close>

record env =
  loads :: "string \<Rightarrow> json option"
  post :: "request \<Rightarrow> exn + response"

text \<open>\<^verbatim>\<open>resp.raise_for_status()\<close>.\<close>

definition raise_for_status :: "response \<Rightarrow> exn + response" where
  "raise_for_status r =
     (if 400 \<le> status_code r \<and> status_code r < 500
        then Inl (Raised HTTPError (show_nat (status_code r) @ '' Client Error: '' @ reason r
                                    @ '' for url: '' @ resp_url r))
      else if 500 \<le> status_code r \<and> status_code r < 600
        then Inl (Raised HTTPError (show_nat (status_code r) @ '' Server Error: '' @ reason r
                                    @ '' for url: '' @ resp_url r))
      else Inr r)"

text \<open>\<^verbatim>\<open>resp.json()\<close>.\<close>

definition json_of :: "response \<Rightarrow> exn + json" where
  "json_of r = (case resp_json r of
       Inl m \<Rightarrow> Inl (Raised JSONDecodeError m)
     | Inr v \<Rightarrow> Inr v)"

definition error_shaped :: "string \<Rightarrow> exn \<Rightarrow> json" where
  "error_shaped what e = JObj [(''error'', JStr (what @ exn_str e))]"

section \<open>The extraction client\<close>

definition extract_design_context :: "env \<Rightarrow> string \<Rightarrow> json" where
  "extract_design_context w url =
     (case and_then (and_then (post w (FunctionReq url)) raise_for_status) json_of of
        Inr v \<Rightarrow> v
      | Inl e \<Rightarrow> error_shaped ''Failed to extract design context: '' e)"

text \<open>The loop over \<^verbatim>\<open>content['data']\<close>: the texts appended to \<^verbatim>\<open>css_content\<close>.\<close>

fun css_content :: "json list \<Rightarrow> exn + json list" where
  "css_content [] = Inr []"
| "css_content (item # rest) =
     and_then (py_get item ''selector'' JNull) (\<lambda>sel.
       if sel = JStr ''style''
       then and_then (py_get item ''text'' (JStr [])) (\<lambda>t.
              and_then (css_content rest) (\<lambda>r. Inr (t # r)))
       else css_content rest)"

definition dom_result :: "json \<Rightarrow> exn + json" where
  "dom_result content =
     and_then (py_contains ''data'' content) (\<lambda>has.
       and_then (if has
                 then and_then (and_then (getitem content ''data'') py_iter) css_content
                 else Inr [])
         (\<lambda>css. and_then (py_join [CHR 0x0A] css) (\<lambda>joined.
            Inr (JObj [(''html'', content), (''extracted_css'', JStr joined)]))))"

definition extract_dom_structure :: "env \<Rightarrow> string \<Rightarrow> json" where
  "extract_dom_structure w url =
     (case and_then (and_then (and_then (post w (ContentReq url)) raise_for_status) json_of)
             dom_result of
        Inr v \<Rightarrow> v
      | Inl e \<Rightarrow> error_shaped ''Failed to extract DOM: '' e)"

text \<open>
  \<^verbatim>\<open>grab_screenshot\<close>: the request it sends and what it returns or raises. A directive list
  that is \<^verbatim>\<open>None\<close> or empty is not put into the payload.
\<close>

definition if_nonempty :: "'a list option \<Rightarrow> 'a list option" where
  "if_nonempty xs = (case xs of Some (y # ys) \<Rightarrow> Some (y # ys) | _ \<Rightarrow> None)"

definition grab_screenshot_request :: "string \<Rightarrow> dict list option \<Rightarrow> dict list option \<Rightarrow> request" where
  "grab_screenshot_request url add_script_tag add_style_tag =
     ScreenshotReq url (if_nonempty add_script_tag) (if_nonempty add_style_tag)"

definition grab_screenshot :: "env \<Rightarrow> string \<Rightarrow> dict list option \<Rightarrow> dict list option \<Rightarrow> exn + string" where
  "grab_screenshot w url add_script_tag add_style_tag =
     and_then (and_then (post w (grab_screenshot_request url add_script_tag add_style_tag))
                 raise_for_status)
       (\<lambda>r. Inr (resp_content r))"

definition viewports :: "(string \<times> nat \<times> nat) list" where
  "viewports = [(''mobile'', 375, 667), (''tablet'', 768, 1024), (''desktop'', 1440, 900)]"

text \<open>The body of the loop of \<^verbatim>\<open>capture_responsive_views\<close>: the value stored for one device.\<close>

definition capture_view :: "env \<Rightarrow> string \<Rightarrow> nat \<times> nat \<Rightarrow> string" where
  "capture_view w url vp =
     (case and_then (post w (ViewportReq url (fst vp) (snd vp))) raise_for_status of
        Inr r \<Rightarrow> b64encode (resp_content r)
      | Inl e \<Rightarrow> ''Error: '' @ exn_str e)"

definition capture_responsive_views :: "env \<Rightarrow> string \<Rightarrow> (string \<times> string) list" where
  "capture_responsive_views w url =
     foldl (\<lambda>screenshots dv. AList.update (fst dv) (capture_view w url (snd dv)) screenshots)
       [] viewports"


section \<open>The streaming completion client\<close>

text \<open>
  The \<^verbatim>\<open>try\<close> block of the loop: the value bound to \<^verbatim>\<open>text\<close>, or the exception raised on
  the way. The message of a \<^verbatim>\<open>JSONDecodeError\<close> is never read, and is left empty.
\<close>

definition delta_content :: "(string \<Rightarrow> json option) \<Rightarrow> string \<Rightarrow> exn + json" where
  "delta_content ld data =
     and_then (case ld data of None \<Rightarrow> Inl (Raised JSONDecodeError []) | Some obj \<Rightarrow> Inr obj)
       (\<lambda>obj. and_then (getitem obj ''choices'')
         (\<lambda>choices. and_then (getitem0 choices)
           (\<lambda>choice. and_then (getitem choice ''delta'')
             (\<lambda>delta. py_get delta ''content'' JNull))))"

text \<open>\<^verbatim>\<open>except (KeyError, json.JSONDecodeError)\<close>.\<close>

definition caught :: "exn \<Rightarrow> bool" where
  "caught e = (case e of
       Raised c _ \<Rightarrow> c = KeyError \<or> c = JSONDecodeError
     | HTTPException _ _ \<Rightarrow> False)"

text \<open>
  What one iteration of \<^verbatim>\<open>for raw in resp.iter_lines()\<close> does: go on to the next line
  without a yield, yield a value, leave the loop, or raise.
\<close>

datatype event = Ignore | Yield json | Done | Fail exn

definition on_line :: "(string \<Rightarrow> json option) \<Rightarrow> raw_line \<Rightarrow> event" where
  "on_line ld raw = (case raw of
       ConnectionLost m \<Rightarrow> Fail (Raised RequestException m)
     | Undecodable m \<Rightarrow> Fail (Raised UnicodeDecodeError m)
     | Raw line \<Rightarrow>
         (if line = [] then Ignore
          else if take 6 line = ''data: ''
          then (let data = py_strip (drop 6 line)
                in if data = ''[DONE]'' then Done
                   else (case delta_content ld data of
                           Inr t \<Rightarrow> (if t \<noteq> JNull then Yield t else Ignore)
                         | Inl e \<Rightarrow> (if caught e then Ignore else Fail e)))
          else Ignore))"

text \<open>The loop: the values it yields, in order, and the exception that ended it, if any.\<close>

fun read_events :: "(string \<Rightarrow> json option) \<Rightarrow> raw_line list \<Rightarrow> json list \<times> exn option" where
  "read_events ld [] = ([], None)"
| "read_events ld (raw # rest) = (case on_line ld raw of
       Ignore \<Rightarrow> read_events ld rest
     | Yield t \<Rightarrow> (case read_events ld rest of (ys, e) \<Rightarrow> (t # ys, e))
     | Done \<Rightarrow> ([], None)
     | Fail e \<Rightarrow> ([], Some e))"

definition closing_tag :: string where
  "closing_tag = CHR 0x0A # ''</html>''"

text \<open>The body of the \<^verbatim>\<open>with\<close> statement and the final yield.\<close>

definition relay_response :: "(string \<Rightarrow> json option) \<Rightarrow> response \<Rightarrow> json list \<times> exn option" where
  "relay_response ld resp =
     (if status_code resp \<noteq> 200
      then ([], Some (HTTPException (status_code resp) (resp_text resp)))
      else (case read_events ld (resp_lines resp) of
              (ys, None) \<Rightarrow> (ys @ [JStr closing_tag], None)
            | (ys, Some e) \<Rightarrow> (ys, Some e)))"

text \<open>
  A run of a generator: the requests it sent, the values it yielded, and the exception
  that ended it (\<open>None\<close> when it returned).
\<close>

record run =
  sent :: "request list"
  chunks :: "json list"
  raised :: "exn option"

text \<open>The values that the prompt is built from; any of the lookups may raise.\<close>

definition build_prompt :: "string \<Rightarrow> json \<Rightarrow> string \<Rightarrow> exn + prompt" where
  "build_prompt url design_context png_b64 =
     and_then (py_get design_context ''title'' (JStr ''Untitled''))
       (\<lambda>title. and_then (and_then (py_get design_context ''elementMap'' (JArr [])) py_len)
         (\<lambda>count. and_then (py_get design_context ''viewport'' (JObj []))
           (\<lambda>viewport. and_then (py_get viewport ''width'' JNull)
             (\<lambda>width. and_then (py_get viewport ''height'' JNull)
               (\<lambda>height. Inr \<lparr>page_title = title, element_count = count,
                   viewport_width = width, viewport_height = height,
                   image_url = ''data:image/png;base64,'' @ png_b64,
                   instruction = ''Please clone this website: '' @ url @
                     ''. Use all the provided design context to make it as accurate as possible.''\<rparr>)))))"

definition request_completion :: "env \<Rightarrow> string \<Rightarrow> json \<Rightarrow> string \<Rightarrow> run" where
  "request_completion w url design_context png_b64 =
     (case build_prompt url design_context png_b64 of
        Inl e \<Rightarrow> \<lparr>sent = [], chunks = [], raised = Some e\<rparr>
      | Inr p \<Rightarrow>
          (case post w (ChatReq p) of
             Inl e \<Rightarrow> \<lparr>sent = [ChatReq p], chunks = [], raised = Some e\<rparr>
           | Inr resp \<Rightarrow>
               (case relay_response (loads w) resp of
                  (ys, e) \<Rightarrow> \<lparr>sent = [ChatReq p], chunks = ys, raised = e\<rparr>)))"

definition stream_clone_html_enhanced ::
  "env \<Rightarrow> string \<Rightarrow> json \<Rightarrow> json \<Rightarrow> (string \<times> string) list
     \<Rightarrow> dict list option \<Rightarrow> dict list option \<Rightarrow> run" where
  "stream_clone_html_enhanced w url design_context dom_structure screenshots
       add_script_tag add_style_tag =
     (let main_screenshot = (case map_of screenshots ''desktop'' of Some s \<Rightarrow> s | None \<Rightarrow> [])
      in if main_screenshot = []
         then (case grab_screenshot w url add_script_tag add_style_tag of
                 Inl e \<Rightarrow> \<lparr>sent = [grab_screenshot_request url add_script_tag add_style_tag],
                            chunks = [], raised = Some e\<rparr>
               | Inr png \<Rightarrow>
                   (let r = request_completion w url design_context (b64encode png)
                    in r\<lparr>sent := grab_screenshot_request url add_script_tag add_style_tag
                                   # sent r\<rparr>))
         else request_completion w url design_context main_screenshot)"

section \<open>The endpoints\<close>

text \<open>\<^verbatim>\<open>tag.values()\<close> and the filter of \<^verbatim>\<open>/clone\<close> on the caller's directives.\<close>

definition dict_values :: "dict \<Rightarrow> json list" where
  "dict_values d = map snd (AList.clearjunk d)"

definition keep_tag :: "dict \<Rightarrow> bool" where
  "keep_tag tag = (tag \<noteq> [] \<and> list_ex truthy (dict_values tag))"

definition filter_tags :: "dict list option \<Rightarrow> dict list option" where
  "filter_tags tags = (case tags of
       Some (t # ts) \<Rightarrow> Some (filter keep_tag (t # ts))
     | _ \<Rightarrow> tags)"

definition diagnostic :: "exn \<Rightarrow> json" where
  "diagnostic exc = JStr (''<!-- Error: '' @ exn_str exc @ '' -->'')"

text \<open>The generator handed to \<^verbatim>\<open>StreamingResponse\<close> by \<^verbatim>\<open>/clone\<close>, run to its end.\<close>

definition clone_site_enhanced :: "env \<Rightarrow> string \<Rightarrow> dict list option \<Rightarrow> dict list option \<Rightarrow> run" where
  "clone_site_enhanced w url add_script_tag add_style_tag =
     (let r = stream_clone_html_enhanced w url
                (extract_design_context w url)
                (extract_dom_structure w url)
                (capture_responsive_views w url)
                (if_nonempty (filter_tags add_script_tag))
                (if_nonempty (filter_tags add_style_tag))
      in case raised r of
           None \<Rightarrow> r
         | Some exc \<Rightarrow> r\<lparr>chunks := chunks r @ [diagnostic exc], raised := None\<rparr>)"

record complete =
  html :: string
  design_context_of :: json
  dom_structure_of :: json
  screenshots_of :: "(string \<times> string) list"
  analysis :: "(string \<times> nat) list"

definition analysis_of :: "json \<Rightarrow> exn + (string \<times> nat) list" where
  "analysis_of design_context =
     and_then (and_then (py_get design_context ''colors'' (JArr [])) py_len)
       (\<lambda>colors. and_then (and_then (py_get design_context ''fonts'' (JArr [])) py_len)
         (\<lambda>fonts. and_then
             (and_then (and_then (py_get design_context ''textContent'' (JObj []))
                          (\<lambda>tc. py_get tc ''headings'' (JArr []))) py_len)
           (\<lambda>headings. and_then (and_then (py_get design_context ''images'' (JArr [])) py_len)
             (\<lambda>images. Inr [(''colors_found'', colors), (''fonts_found'', fonts),
                             (''headings_count'', headings), (''images_count'', images)]))))"

text \<open>
  \<^verbatim>\<open>/clone-complete\<close>: the requests sent by the streaming client, and the JSON document
  returned or the \<^verbatim>\<open>HTTPException\<close> raised.
\<close>

definition clone_site_complete ::
  "env \<Rightarrow> string \<Rightarrow> dict list option \<Rightarrow> dict list option \<Rightarrow> request list \<times> (exn + complete)" where
  "clone_site_complete w url add_script_tag add_style_tag =
     (let design_context = extract_design_context w url;
          dom_structure = extract_dom_structure w url;
          screenshots = capture_responsive_views w url;
          r = stream_clone_html_enhanced w url design_context dom_structure screenshots
                add_script_tag add_style_tag;
          body = (case raised r of
                    Some e \<Rightarrow> Inl e
                  | None \<Rightarrow>
                      and_then (py_join [] (chunks r)) (\<lambda>html_content.
                        and_then (analysis_of design_context) (\<lambda>a.
                          Inr \<lparr>html = html_content, design_context_of = design_context,
                               dom_structure_of = dom_structure, screenshots_of = screenshots,
                               analysis = a\<rparr>)))
      in (sent r,
          case body of
            Inl e \<Rightarrow> Inl (HTTPException 500 (''Failed to clone website: '' @ exn_str e))
          | Inr c \<Rightarrow> Inr c))"


section \<open>The incremental mode, one chunk at a time\<close>

text \<open>
  \<^verbatim>\<open>/clone\<close> hands its generator to \<^verbatim>\<open>StreamingResponse\<close>, which asks it for one chunk
  after the other and writes each chunk to the connection before it asks for the next. A
  generator that has started the loop over the lines is either still reading, with the lines
  not yet read, or finished.
\<close>

datatype reader = Reading "raw_line list" | Exhausted

text \<open>
  One resumption of the generator inside the loop. It reads lines until one of them gives an
  increment and hands the increment over; the lines after that one are still unread. At the
  end of the body and at the sentinel it hands over the closing tag and is finished. When a
  line raises, the handler of the generator hands over the diagnostic comment instead, and
  the generator is finished.
\<close>

fun advance :: "(string \<Rightarrow> json option) \<Rightarrow> raw_line list \<Rightarrow> json \<times> reader" where
  "advance ld [] = (JStr closing_tag, Exhausted)"
| "advance ld (raw # rest) = (case on_line ld raw of
       Ignore \<Rightarrow> advance ld rest
     | Yield t \<Rightarrow> (t, Reading rest)
     | Done \<Rightarrow> (JStr closing_tag, Exhausted)
     | Fail e \<Rightarrow> (diagnostic e, Exhausted))"

text \<open>
  What \<^verbatim>\<open>stream_clone_html_enhanced\<close> does before its loop: the image, the prompt, the
  request and the test of the status.
\<close>

definition open_stream ::
  "env \<Rightarrow> string \<Rightarrow> json \<Rightarrow> (string \<times> string) list
     \<Rightarrow> dict list option \<Rightarrow> dict list option \<Rightarrow> exn + response" where
  "open_stream w url design_context screenshots add_script_tag add_style_tag =
     (let main_screenshot = (case map_of screenshots ''desktop'' of Some s \<Rightarrow> s | None \<Rightarrow> [])
      in and_then
           (if main_screenshot = []
            then and_then (grab_screenshot w url add_script_tag add_style_tag)
                   (\<lambda>png. Inr (b64encode png))
            else Inr main_screenshot)
           (\<lambda>png_b64. and_then (build_prompt url design_context png_b64)
             (\<lambda>p. and_then (post w (ChatReq p))
               (\<lambda>resp. if status_code resp \<noteq> 200
                       then Inl (HTTPException (status_code resp) (resp_text resp))
                       else Inr resp))))"

text \<open>
  The first resumption of the generator of \<^verbatim>\<open>/clone\<close>: the three extractions (the DOM
  structure is fetched and not used), then the start of the stream, up to the first chunk.
\<close>

definition start_clone ::
  "env \<Rightarrow> string \<Rightarrow> dict list option \<Rightarrow> dict list option \<Rightarrow> json \<times> reader" where
  "start_clone w url add_script_tag add_style_tag =
     (case open_stream w url (extract_design_context w url) (capture_responsive_views w url)
             (if_nonempty (filter_tags add_script_tag))
             (if_nonempty (filter_tags add_style_tag)) of
        Inl exc \<Rightarrow> (diagnostic exc, Exhausted)
      | Inr resp \<Rightarrow> advance (loads w) (resp_lines resp))"

text \<open>
  \<^verbatim>\<open>StreamingResponse\<close> encodes a chunk that is not \<^verbatim>\<open>bytes\<close> with
  \<^verbatim>\<open>chunk.encode("utf-8")\<close>: only a \<^verbatim>\<open>str\<close> has the method, and a lone surrogate cannot be
  encoded. The exception is raised in the framework, outside the generator, and its message
  goes to the log of the server; for the surrogate it is left empty.
\<close>

fun has_surrogate :: "string \<Rightarrow> bool" where
  "has_surrogate (a # b # r) =
     ((a = CHR 0xED \<and> 160 \<le> (of_char b :: nat)) \<or> has_surrogate (b # r))"
| "has_surrogate _ = False"

definition encode_chunk :: "json \<Rightarrow> exn + string" where
  "encode_chunk chunk = (case chunk of
       JStr s \<Rightarrow> (if has_surrogate s then Inl (Raised UnicodeEncodeError []) else Inr s)
     | _ \<Rightarrow> Inl (Raised AttributeError
                 (quoted (type_name chunk) @ '' object has no attribute '' @ quoted ''encode'')))"

text \<open>
  The loop of \<^verbatim>\<open>StreamingResponse\<close> from a chunk in hand: the chunks written to the
  connection, in order, and the exception that cut the response short, if any.
\<close>

function transmit :: "(string \<Rightarrow> json option) \<Rightarrow> json \<times> reader \<Rightarrow> string list \<times> exn option" where
  "transmit ld (chunk, st) = (case encode_chunk chunk of
       Inl e \<Rightarrow> ([], Some e)
     | Inr b \<Rightarrow> (case st of
                  Exhausted \<Rightarrow> ([b], None)
                | Reading ls \<Rightarrow> (case transmit ld (advance ld ls) of (bs, r) \<Rightarrow> (b # bs, r))))"
  by pat_completeness auto
termination
proof -
  have bound: "(case snd (advance ld ls) of Exhausted \<Rightarrow> 0 | Reading r \<Rightarrow> Suc (length r))
      \<le> length ls" for ld :: "string \<Rightarrow> json option" and ls
    by (induction ls) (auto split: event.splits reader.splits)
  show ?thesis
  proof (relation "measure (\<lambda>(ld, c, st). case st of Exhausted \<Rightarrow> 0 | Reading r \<Rightarrow> Suc (length r))")
    show "wf (measure (\<lambda>(ld, c, st). case st of Exhausted \<Rightarrow> 0 | Reading r \<Rightarrow> Suc (length r)))"
      by simp
  next
    fix ld :: "string \<Rightarrow> json option" and chunk :: json and st :: reader and b :: string
      and ls :: "raw_line list"
    assume "st = Reading ls"
    then show "((ld, advance ld ls), (ld, chunk, st))
        \<in> measure (\<lambda>(ld, c, st). case st of Exhausted \<Rightarrow> 0 | Reading r \<Rightarrow> Suc (length r))"
      using bound [of ld ls] by (cases "advance ld ls") auto
  qed
qed

declare transmit.simps [simp del]

definition clone_response ::
  "env \<Rightarrow> string \<Rightarrow> dict list option \<Rightarrow> dict list option \<Rightarrow> string list \<times> exn option" where
  "clone_response w url add_script_tag add_style_tag =
     transmit (loads w) (start_clone w url add_script_tag add_style_tag)"

section \<open>Auxiliary notions for the properties\<close>

text \<open>
  The increments that a list of lines contributes, and the lines that neither end the
  loop nor raise.
\<close>

definition increments :: "(string \<Rightarrow> json option) \<Rightarrow> raw_line list \<Rightarrow> json list" where
  "increments ld ls = concat (map (\<lambda>raw. case on_line ld raw of Yield t \<Rightarrow> [t] | _ \<Rightarrow> []) ls)"

definition passes :: "(string \<Rightarrow> json option) \<Rightarrow> raw_line \<Rightarrow> bool" where
  "passes ld raw = (case on_line ld raw of Ignore \<Rightarrow> True | Yield _ \<Rightarrow> True | _ \<Rightarrow> False)"

text \<open>Sample data: a response with status 200 and a given body, and some event-stream lines.\<close>

definition ok_response :: "raw_line list \<Rightarrow> response" where
  "ok_response ls = \<lparr>status_code = 200, reason = ''OK'', resp_url = [], resp_content = [],
     resp_text = [], resp_json = Inl [], resp_lines = ls\<rparr>"

definition line_A :: raw_line where
  \<open>line_A = Raw ''data: {"choices":[{"delta":{"content":"A"}}]}''\<close>

definition line_B :: raw_line where
  \<open>line_B = Raw ''data: {"choices":[{"delta":{"content":"B"}}]}''\<close>

definition line_DONE :: raw_line where
  \<open>line_DONE = Raw ''data: [DONE]''\<close>

definition line_empty_choices :: raw_line where
  \<open>line_empty_choices = Raw ''data: {"choices":[]}''\<close>

definition line_not_json :: raw_line where
  \<open>line_not_json = Raw ''data: not-json''\<close>

definition line_no_choices :: raw_line where
  \<open>line_no_choices = Raw ''data: {"id":"x"}''\<close>

text \<open>A response with a given status and body, and a service that answers 503 to everything.\<close>

definition reply :: "nat \<Rightarrow> string \<Rightarrow> response" where
  "reply code body = \<lparr>status_code = code, reason = ''Reason'', resp_url = ''http://service'',
     resp_content = body, resp_text = body, resp_json = Inl ''Expecting value'', resp_lines = []\<rparr>"

definition busy_env :: env where
  "busy_env = \<lparr>loads = json_decode, post = (\<lambda>req. Inr (reply 503 ''busy''))\<rparr>"

text \<open>The prompt built from an empty design context.\<close>

definition default_prompt :: "string \<Rightarrow> string \<Rightarrow> prompt" where
  "default_prompt url png = \<lparr>page_title = JStr ''Untitled'', element_count = 0,
     viewport_width = JNull, viewport_height = JNull,
     image_url = ''data:image/png;base64,'' @ png,
     instruction = ''Please clone this website: '' @ url @
       ''. Use all the provided design context to make it as accurate as possible.''\<rparr>"

text \<open>Services where the capture of one viewport times out.\<close>

definition flaky_env :: env where
  "flaky_env = \<lparr>loads = json_decode,
     post = (\<lambda>req. case req of
        ViewportReq u wd ht \<Rightarrow>
          (if wd = 375 then Inl (Raised RequestException ''timed out'') else Inr (reply 200 ''ABC''))
      | _ \<Rightarrow> Inr (reply 200 ''ABC''))\<rparr>"

definition dark_env :: env where
  "dark_env = \<lparr>loads = json_decode,
     post = (\<lambda>req. case req of
        ViewportReq u wd ht \<Rightarrow>
          (if wd = 1440 then Inl (Raised RequestException ''timed out'') else Inr (reply 200 ''ABC''))
      | ChatReq p \<Rightarrow> Inr (ok_response [line_A, line_DONE])
      | _ \<Rightarrow> Inr (reply 200 ''ABC''))\<rparr>"




text \<open>A service that answers every request with status 200 and a given JSON body.\<close>

definition echo_env :: "json \<Rightarrow> env" where
  "echo_env v = \<lparr>loads = json_decode,
     post = (\<lambda>req. Inr ((reply 200 [])\<lparr>resp_json := Inr v\<rparr>))\<rparr>"

text \<open>A response of the content service with one head element and three style elements.\<close>

definition sample_content :: json where
  "sample_content = JObj [(''data'', JArr [
      JObj [(''selector'', JStr ''head''), (''text'', JStr ''h'')],
      JObj [(''selector'', JStr ''style''), (''text'', JStr ''a{}'')],
      JObj [(''selector'', JStr ''style''), (''text'', JStr ''b{}'')],
      JObj [(''selector'', JStr ''style'')]])]"

text \<open>A service that answers every request with status 200 and an empty body.\<close>

definition blank_env :: env where
  "blank_env = \<lparr>loads = json_decode, post = (\<lambda>req. Inr (reply 200 []))\<rparr>"

text \<open>A model endpoint whose stream breaks after the first increment.\<close>

definition cut_env :: env where
  "cut_env = \<lparr>loads = json_decode,
     post = (\<lambda>req. case req of
        ChatReq p \<Rightarrow> Inr (ok_response [line_A, ConnectionLost ''reset'', line_B])
      | _ \<Rightarrow> Inr (reply 200 ''ABC''))\<rparr>"

text \<open>
  Writing a finished list of chunks to the connection, and the chunks that the generator
  of \<^verbatim>\<open>/clone\<close> hands over for a list of lines when it is run to its end.
\<close>

fun send_all :: "json list \<Rightarrow> string list \<times> exn option" where
  "send_all [] = ([], None)"
| "send_all (c # cs) = (case encode_chunk c of
       Inl e \<Rightarrow> ([], Some e)
     | Inr b \<Rightarrow> (case send_all cs of (bs, r) \<Rightarrow> (b # bs, r)))"

definition finished_chunks :: "(string \<Rightarrow> json option) \<Rightarrow> raw_line list \<Rightarrow> json list" where
  "finished_chunks ld ls = (case read_events ld ls of
       (ys, None) \<Rightarrow> ys @ [JStr closing_tag]
     | (ys, Some e) \<Rightarrow> ys @ [diagnostic e])"






text \<open>
  A line whose content is a list of typed parts, not a string, and a model endpoint that
  sends it between two ordinary lines.
\<close>

definition line_parts :: raw_line where
  \<open>line_parts = Raw ''data: {"choices":[{"delta":{"content":[{"type":"text","text":"x"}]}}]}''\<close>

definition parts_env :: env where
  "parts_env = \<lparr>loads = json_decode,
     post = (\<lambda>req. case req of
        ChatReq p \<Rightarrow> Inr (ok_response [line_A, line_parts, line_B, line_DONE])
      | _ \<Rightarrow> Inr (reply 200 ''ABC''))\<rparr>"

section \<open>The streaming parser\<close>

lemma read_events_passes:
  "list_all (passes ld) pre \<Longrightarrow>
   read_events ld (pre @ tail) =
     (increments ld pre @ fst (read_events ld tail), snd (read_events ld tail))"
  by (induction pre) (auto simp: increments_def passes_def split: event.splits prod.splits)

lemma on_A: "on_line json_decode line_A = Yield (JStr ''A'')"
  by code_simp

lemma on_B: "on_line json_decode line_B = Yield (JStr ''B'')"
  by code_simp

lemma py_strip_DONE: "py_strip ''[DONE]'' = ''[DONE]''"
  by code_simp

lemma on_DONE: "on_line ld line_DONE = Done"
  by (simp add: line_DONE_def on_line_def py_strip_DONE)

text \<open>
  Claim C1, as amended. On a response with status 200, let the body be some lines that
  neither end the loop nor raise, followed either by nothing (the connection is closed) or
  by a line carrying the sentinel \<^verbatim>\<open>[DONE]\<close> and anything whatever after it. Then the
  generator yields the increments of the lines before the end, in order, then exactly one
  final increment, which is a newline followed by \<^verbatim>\<open></html>\<close>, and returns; what follows the
  sentinel is not read.
\<close>

theorem stream_ends_with_closing_tag:
  assumes "status_code resp = 200"
      and "resp_lines resp = pre @ tail"
      and "list_all (passes ld) pre"
      and "tail = [] \<or> on_line ld (hd tail) = Done"
  shows "relay_response ld resp = (increments ld pre @ [JStr closing_tag], None)"
proof -
  have "read_events ld tail = ([], None)"
    using assms(4) by (cases tail) auto
  then have "read_events ld (resp_lines resp) = (increments ld pre, None)"
    using assms(2,3) by (simp add: read_events_passes)
  then show ?thesis
    using assms(1) by (simp add: relay_response_def)
qed

text \<open>
  The three lines of the claim, followed by a line that would raise if it were read and
  by one more data line: the increments are \<open>A\<close>, \<open>B\<close> and the closing tag.
\<close>

theorem stream_ends_with_closing_tag_witness:
  "relay_response json_decode
     (ok_response [line_A, line_B, line_DONE, Undecodable ''unread'', line_A]) =
   ([JStr ''A'', JStr ''B'', JStr (CHR 0x0A # ''</html>'')], None)"
proof -
  let ?r = "ok_response [line_A, line_B, line_DONE, Undecodable ''unread'', line_A]"
  have 1: "status_code ?r = 200" by (simp add: ok_response_def)
  have 2: "resp_lines ?r = [line_A, line_B] @ [line_DONE, Undecodable ''unread'', line_A]"
    by (simp add: ok_response_def)
  have 3: "list_all (passes json_decode) [line_A, line_B]"
    by (simp add: passes_def on_A on_B)
  have 4: "[line_DONE, Undecodable ''unread'', line_A] = [] \<or>
           on_line json_decode (hd [line_DONE, Undecodable ''unread'', line_A]) = Done"
    by (simp add: on_DONE)
  show ?thesis
    using stream_ends_with_closing_tag [OF 1 2 3 4]
    by (simp add: increments_def on_A on_B closing_tag_def)
qed

text \<open>
  Claim C1 as stated fails: on status 200 the last increment of the three lines is the
  closing tag preceded by a newline, not the bare tag, and on the successful status 201
  nothing is yielded at all.
\<close>

theorem closing_tag_counterexample:
  "relay_response json_decode (ok_response [line_A, line_B, line_DONE]) =
     ([JStr ''A'', JStr ''B'', JStr (CHR 0x0A # ''</html>'')], None)
   \<and> fst (relay_response json_decode (ok_response [line_A, line_B, line_DONE]))
       \<noteq> [JStr ''A'', JStr ''B'', JStr ''</html>'']
   \<and> relay_response json_decode ((ok_response [line_A, line_B, line_DONE])\<lparr>status_code := 201\<rparr>)
       = ([], Some (HTTPException 201 []))"
  by (simp add: relay_response_def ok_response_def on_A on_B on_DONE closing_tag_def)

section \<open>A response that is not a success\<close>

lemma sent_request_completion:
  "ChatReq p \<in> set (sent (request_completion w url dc png)) \<Longrightarrow> build_prompt url dc png = Inr p"
  by (auto simp: request_completion_def split: sum.splits prod.splits)

lemma request_completion_bad_status:
  assumes "build_prompt url dc png = Inr p" and "post w (ChatReq p) = Inr resp"
      and "status_code resp \<noteq> 200"
  shows "chunks (request_completion w url dc png) = [] \<and>
         raised (request_completion w url dc png) =
           Some (HTTPException (status_code resp) (resp_text resp))"
  using assms by (simp add: request_completion_def relay_response_def)

lemma sent_stream:
  "ChatReq p \<in> set (sent (stream_clone_html_enhanced w url dc ds shots s t)) \<Longrightarrow>
   \<exists>png. build_prompt url dc png = Inr p \<and>
     stream_clone_html_enhanced w url dc ds shots s t =
       (request_completion w url dc png)
         \<lparr>sent := sent (stream_clone_html_enhanced w url dc ds shots s t)\<rparr>"
  by (auto simp: stream_clone_html_enhanced_def Let_def grab_screenshot_request_def
      dest: sent_request_completion split: sum.splits option.splits if_splits)

lemma build_prompt_default: "build_prompt url (JObj []) png = Inr (default_prompt url png)"
  by (simp add: build_prompt_def default_prompt_def py_get_def py_len_def and_then_def)

text \<open>
  Claim C2. Whatever the arguments of \<^verbatim>\<open>stream_clone_html_enhanced\<close>: when the chat
  request has been sent and the response to it has a status outside 200..299, the generator
  yields nothing, not even the closing tag, and raises the \<^verbatim>\<open>HTTPException\<close> that carries
  the status code and the text of the response.
\<close>

theorem non_success_status_fails:
  assumes "ChatReq p \<in> set (sent (stream_clone_html_enhanced w url dc ds shots s t))"
      and "post w (ChatReq p) = Inr resp"
      and "\<not> (200 \<le> status_code resp \<and> status_code resp < 300)"
  shows "chunks (stream_clone_html_enhanced w url dc ds shots s t) = [] \<and>
         raised (stream_clone_html_enhanced w url dc ds shots s t) =
           Some (HTTPException (status_code resp) (resp_text resp))"
proof -
  let ?run = "stream_clone_html_enhanced w url dc ds shots s t"
  obtain png where b: "build_prompt url dc png = Inr p"
    and eq: "?run = (request_completion w url dc png)\<lparr>sent := sent ?run\<rparr>"
    using sent_stream [OF assms(1)] by blast
  have "status_code resp \<noteq> 200" using assms(3) by auto
  from request_completion_bad_status [OF b assms(2) this]
  have "chunks ((request_completion w url dc png)\<lparr>sent := sent ?run\<rparr>) = [] \<and>
        raised ((request_completion w url dc png)\<lparr>sent := sent ?run\<rparr>) =
           Some (HTTPException (status_code resp) (resp_text resp))"
    by simp
  then show ?thesis using eq by metis
qed

theorem non_success_status_fails_witness:
  "chunks (stream_clone_html_enhanced busy_env ''http://a'' (JObj []) JNull
             [(''desktop'', ''QUJD'')] None None) = [] \<and>
   raised (stream_clone_html_enhanced busy_env ''http://a'' (JObj []) JNull
             [(''desktop'', ''QUJD'')] None None) = Some (HTTPException 503 ''busy'')"
proof -
  let ?p = "default_prompt ''http://a'' ''QUJD''"
  have 1: "ChatReq ?p \<in> set (sent (stream_clone_html_enhanced busy_env ''http://a'' (JObj [])
             JNull [(''desktop'', ''QUJD'')] None None))"
    by (simp add: stream_clone_html_enhanced_def request_completion_def build_prompt_default
        busy_env_def relay_response_def reply_def)
  have 2: "post busy_env (ChatReq ?p) = Inr (reply 503 ''busy'')"
    by (simp add: busy_env_def)
  have 3: "\<not> (200 \<le> status_code (reply 503 ''busy'') \<and> status_code (reply 503 ''busy'') < 300)"
    by (simp add: reply_def)
  show ?thesis
    using non_success_status_fails [OF 1 2 3] by (simp add: reply_def)
qed

section \<open>Lines that cannot be used\<close>

lemma on_empty_choices:
  "on_line json_decode line_empty_choices = Fail (Raised IndexError ''list index out of range'')"
  by code_simp

lemma on_not_json: "on_line json_decode line_not_json = Ignore"
  by code_simp

lemma on_no_choices: "on_line json_decode line_no_choices = Ignore"
  by code_simp

text \<open>
  Claim C3 holds for a payload that is not JSON and for a record without the key
  \<^verbatim>\<open>choices\<close>: both lines are skipped and \<open>A\<close>, \<open>B\<close> and the closing tag are yielded. It fails
  for the record whose list of choices is empty: subscripting the list raises an
  \<^verbatim>\<open>IndexError\<close>, which the handler for \<^verbatim>\<open>KeyError\<close> and \<^verbatim>\<open>JSONDecodeError\<close> lets through, so
  the generator stops after \<open>A\<close> with that exception; \<open>B\<close> and the closing tag are lost.
\<close>

theorem empty_choices_raises:
  "relay_response json_decode
     (ok_response [line_A, line_not_json, line_no_choices, line_B, line_DONE]) =
     ([JStr ''A'', JStr ''B'', JStr closing_tag], None)
   \<and> relay_response json_decode (ok_response [line_A, line_empty_choices, line_B, line_DONE]) =
     ([JStr ''A''], Some (Raised IndexError ''list index out of range''))"
  by (simp add: relay_response_def ok_response_def on_A on_B on_DONE on_not_json
      on_no_choices on_empty_choices)

section \<open>The screenshots of the three viewports\<close>

lemma capture_responsive_views_eq:
  "capture_responsive_views w url =
     [(''mobile'', capture_view w url (375, 667)), (''tablet'', capture_view w url (768, 1024)),
      (''desktop'', capture_view w url (1440, 900))]"
  by (simp add: capture_responsive_views_def viewports_def)

lemma capture_view_cases:
  "capture_view w url (wd, ht) =
     (case post w (ViewportReq url wd ht) of
        Inl e \<Rightarrow> ''Error: '' @ exn_str e
      | Inr r \<Rightarrow> (case raise_for_status r of
                   Inl e \<Rightarrow> ''Error: '' @ exn_str e
                 | Inr r' \<Rightarrow> b64encode (resp_content r)))"
  by (auto simp: capture_view_def and_then_def raise_for_status_def split: sum.splits)

text \<open>
  Claim C4. The result of \<^verbatim>\<open>capture_responsive_views\<close> has exactly the keys
  \<^verbatim>\<open>mobile\<close>, \<^verbatim>\<open>tablet\<close> and \<^verbatim>\<open>desktop\<close>, and the value under each key is
  decided by the request for that viewport alone: when the request raises, or is answered
  with a status from 400 to 599, the value is a string that begins with \<open>Error: \<close>;
  otherwise it is the base64 encoding of the body of the response.
\<close>

theorem capture_responsive_views_independent:
  "map fst (capture_responsive_views w url) = [''mobile'', ''tablet'', ''desktop''] \<and>
   (\<forall>d wd ht. (d, wd, ht) \<in> set viewports \<longrightarrow>
      (case post w (ViewportReq url wd ht) of
         Inl e \<Rightarrow> map_of (capture_responsive_views w url) d = Some (''Error: '' @ exn_str e)
       | Inr r \<Rightarrow>
           (if 400 \<le> status_code r \<and> status_code r < 600
            then \<exists>m. map_of (capture_responsive_views w url) d = Some (''Error: '' @ m)
            else map_of (capture_responsive_views w url) d = Some (b64encode (resp_content r)))))"
  by (auto simp: capture_responsive_views_eq viewports_def capture_view_cases raise_for_status_def
      split: sum.splits)

lemma reply_fields:
  "status_code (reply c b) = c" "resp_content (reply c b) = b" "resp_text (reply c b) = b"
  by (simp_all add: reply_def)

lemma b64encode_ABC: "b64encode ''ABC'' = ''QUJD''"
  by (simp add: b64_char_def)

lemma flaky_env_post:
  "post flaky_env (ViewportReq u 375 ht) = Inl (Raised RequestException ''timed out'')"
  "post flaky_env (ViewportReq u 768 ht) = Inr (reply 200 ''ABC'')"
  "post flaky_env (ViewportReq u 1440 ht) = Inr (reply 200 ''ABC'')"
  by (simp_all add: flaky_env_def)

text \<open>The mobile capture times out; the other two hold the encoding of their image.\<close>

theorem capture_responsive_views_independent_witness:
  "map fst (capture_responsive_views flaky_env ''http://a'') = [''mobile'', ''tablet'', ''desktop''] \<and>
   map_of (capture_responsive_views flaky_env ''http://a'') ''mobile'' = Some ''Error: timed out'' \<and>
   map_of (capture_responsive_views flaky_env ''http://a'') ''tablet'' = Some ''QUJD'' \<and>
   map_of (capture_responsive_views flaky_env ''http://a'') ''desktop'' = Some ''QUJD''"
proof -
  note t = capture_responsive_views_independent [of flaky_env "''http://a''"]
  note each = t [THEN conjunct2, rule_format]
  have v: "(''mobile'', 375, 667) \<in> set viewports" "(''tablet'', 768, 1024) \<in> set viewports"
    "(''desktop'', 1440, 900) \<in> set viewports"
    by (simp_all add: viewports_def)
  have 0: "map fst (capture_responsive_views flaky_env ''http://a'') = [''mobile'', ''tablet'', ''desktop'']"
    using t by (rule conjunct1)
  have 1: "map_of (capture_responsive_views flaky_env ''http://a'') ''mobile'' = Some ''Error: timed out''"
    using each [OF v(1)] by (simp add: flaky_env_post)
  have 2: "map_of (capture_responsive_views flaky_env ''http://a'') ''tablet'' = Some ''QUJD''"
    using each [OF v(2)] by (simp add: flaky_env_post reply_fields b64encode_ABC del: b64encode.simps)
  have 3: "map_of (capture_responsive_views flaky_env ''http://a'') ''desktop'' = Some ''QUJD''"
    using each [OF v(3)] by (simp add: flaky_env_post reply_fields b64encode_ABC del: b64encode.simps)
  from 0 1 2 3 show ?thesis by blast
qed

section \<open>A failed desktop capture\<close>

lemma build_prompt_image:
  "build_prompt url dc png = Inr p \<Longrightarrow> image_url p = ''data:image/png;base64,'' @ png"
  by (auto simp: build_prompt_def and_then_def split: sum.splits)

lemma sent_request_completion_cases:
  "sent (request_completion w url dc png) =
     (case build_prompt url dc png of Inl e \<Rightarrow> [] | Inr p \<Rightarrow> [ChatReq p])"
  by (auto simp: request_completion_def split: sum.splits prod.splits)

text \<open>
  Claim C10. When the capture of the desktop viewport fails with the exception \<open>e\<close>, the
  value under \<^verbatim>\<open>desktop\<close> is the string \<open>Error: \<close> followed by the message of \<open>e\<close>.
  Given these screenshots, \<^verbatim>\<open>stream_clone_html_enhanced\<close> never sends the request of the
  fallback screenshot; every chat request it sends carries that string after
  \<^verbatim>\<open>data:image/png;base64,\<close> as its image, and it sends exactly that request whenever the
  prompt can be built.
\<close>

theorem failed_desktop_capture_is_sent:
  assumes "and_then (post w (ViewportReq url 1440 900)) raise_for_status = Inl e"
  shows "map_of (capture_responsive_views w url) ''desktop'' = Some (''Error: '' @ exn_str e) \<and>
         (\<forall>u a b. ScreenshotReq u a b
             \<notin> set (sent (stream_clone_html_enhanced w url dc ds (capture_responsive_views w url) s t))) \<and>
         (\<forall>p. ChatReq p
             \<in> set (sent (stream_clone_html_enhanced w url dc ds (capture_responsive_views w url) s t))
            \<longrightarrow> image_url p = ''data:image/png;base64,'' @ ''Error: '' @ exn_str e) \<and>
         (\<forall>p. build_prompt url dc (''Error: '' @ exn_str e) = Inr p \<longrightarrow>
            sent (stream_clone_html_enhanced w url dc ds (capture_responsive_views w url) s t)
              = [ChatReq p])"
proof -
  have d: "map_of (capture_responsive_views w url) ''desktop'' = Some (''Error: '' @ exn_str e)"
    using assms by (simp add: capture_responsive_views_eq capture_view_def)
  then have r: "stream_clone_html_enhanced w url dc ds (capture_responsive_views w url) s t =
      request_completion w url dc (''Error: '' @ exn_str e)"
    by (simp add: stream_clone_html_enhanced_def)
  have i: "image_url p = ''data:image/png;base64,'' @ ''Error: '' @ exn_str e"
    if "ChatReq p \<in> set (sent (request_completion w url dc (''Error: '' @ exn_str e)))" for p
    using build_prompt_image [OF sent_request_completion [OF that]] .
  show ?thesis
    unfolding r using d i by (simp add: sent_request_completion_cases split: sum.splits)
qed

lemma dark_env_post:
  "post dark_env (ViewportReq u 1440 ht) = Inl (Raised RequestException ''timed out'')"
  by (simp add: dark_env_def)

theorem failed_desktop_capture_is_sent_witness:
  "map_of (capture_responsive_views dark_env ''http://a'') ''desktop'' = Some ''Error: timed out'' \<and>
   sent (stream_clone_html_enhanced dark_env ''http://a'' (JObj []) JNull
          (capture_responsive_views dark_env ''http://a'') (Some [[(''src'', JStr ''x.js'')]]) None)
     = [ChatReq (default_prompt ''http://a'' ''Error: timed out'')]"
proof -
  have h: "and_then (post dark_env (ViewportReq ''http://a'' 1440 900)) raise_for_status
             = Inl (Raised RequestException ''timed out'')"
    by (simp add: dark_env_post and_then_def)
  note t = failed_desktop_capture_is_sent [OF h, of "JObj []" JNull "Some [[(''src'', JStr ''x.js'')]]" None]
  have 1: "map_of (capture_responsive_views dark_env ''http://a'') ''desktop'' = Some ''Error: timed out''"
    using t by simp
  have 2: "sent (stream_clone_html_enhanced dark_env ''http://a'' (JObj []) JNull
          (capture_responsive_views dark_env ''http://a'') (Some [[(''src'', JStr ''x.js'')]]) None)
     = [ChatReq (default_prompt ''http://a'' ''Error: timed out'')]"
    using t [THEN conjunct2, THEN conjunct2, THEN conjunct2, rule_format,
        of "default_prompt ''http://a'' ''Error: timed out''"]
      build_prompt_default [of "''http://a''" "''Error: timed out''"]
    by simp
  from 1 2 show ?thesis by blast
qed

section \<open>The extracted CSS\<close>





lemma str_items_Inr: "str_items i vs = Inr ss \<Longrightarrow> vs = map JStr ss"
proof (induction vs arbitrary: i ss)
  case Nil
  then show ?case by simp
next
  case (Cons v vs)
  then show ?case
    by (cases v) (auto simp: and_then_def split: sum.splits)
qed

lemma py_join_Inr: "py_join sep vs = Inr joined \<Longrightarrow> \<exists>ss. vs = map JStr ss \<and> joined = join_with sep ss"
  by (auto simp: py_join_def and_then_def split: sum.splits dest: str_items_Inr)




lemma py_join_map_JStr: "py_join sep (map JStr ss) = Inr (join_with sep ss)"
proof -
  have "str_items i (map JStr ss) = Inr ss" for i
    by (induction ss arbitrary: i) (simp_all add: and_then_def)
  then show ?thesis by (simp add: py_join_def and_then_def)
qed






lemma echo_env_success:
  "and_then (and_then (post (echo_env v) req) raise_for_status) json_of = Inr v"
  by (simp add: echo_env_def reply_def and_then_def raise_for_status_def json_of_def)

lemma sample_dom_result:
  "dom_result sample_content =
     Inr (JObj [(''html'', sample_content),
                (''extracted_css'', JStr (''a{}'' @ [CHR 0x0A] @ ''b{}'' @ [CHR 0x0A]))])"
  by (simp add: dom_result_def sample_content_def
      py_contains_def getitem_def py_iter_def py_get_def py_join_def and_then_def)







section \<open>The error-shaped results\<close>

text \<open>
  Claim C9 as stated fails for \<^verbatim>\<open>extract_design_context\<close>: the function returns the body
  of a successful response as it is, so a body with an \<^verbatim>\<open>error\<close> key gives a successful
  result with an error field.
\<close>

theorem error_field_counterexample:
  "and_then (and_then (post (echo_env (JObj [(''error'', JStr ''boom'')])) (FunctionReq ''http://a''))
      raise_for_status) json_of = Inr (JObj [(''error'', JStr ''boom'')])
   \<and> extract_design_context (echo_env (JObj [(''error'', JStr ''boom'')])) ''http://a''
       = JObj [(''error'', JStr ''boom'')]
   \<and> py_contains ''error''
        (extract_design_context (echo_env (JObj [(''error'', JStr ''boom'')])) ''http://a'')
       = Inr True"
  by (simp add: extract_design_context_def echo_env_success py_contains_def)

lemma dom_result_shape:
  "dom_result content = Inr res \<Longrightarrow>
   \<exists>css. res = JObj [(''html'', content), (''extracted_css'', JStr css)]"
  by (auto simp: dom_result_def and_then_def split: sum.splits)

text \<open>
  Claim C9, as amended. Both functions return a value in every case. When the request
  raises, the status is an error or the body is not JSON, the result is the mapping with the
  single key \<^verbatim>\<open>error\<close> and a string under it. Otherwise \<^verbatim>\<open>extract_design_context\<close> returns
  the body unchanged, and \<^verbatim>\<open>extract_dom_structure\<close> returns either the mapping with exactly
  the keys \<^verbatim>\<open>html\<close> and \<^verbatim>\<open>extracted_css\<close>, or again the error-shaped mapping when the body
  cannot be traversed.
\<close>

theorem extraction_never_raises:
  "(case and_then (and_then (post w (FunctionReq url)) raise_for_status) json_of of
      Inl e \<Rightarrow> extract_design_context w url =
                 JObj [(''error'', JStr (''Failed to extract design context: '' @ exn_str e))]
    | Inr payload \<Rightarrow> extract_design_context w url = payload) \<and>
   (case and_then (and_then (post w (ContentReq url)) raise_for_status) json_of of
      Inl e \<Rightarrow> extract_dom_structure w url =
                 JObj [(''error'', JStr (''Failed to extract DOM: '' @ exn_str e))]
    | Inr content \<Rightarrow>
        (\<exists>css. extract_dom_structure w url =
                 JObj [(''html'', content), (''extracted_css'', JStr css)]) \<or>
        (\<exists>e. dom_result content = Inl e \<and> extract_dom_structure w url =
                 JObj [(''error'', JStr (''Failed to extract DOM: '' @ exn_str e))]))"
  by (auto simp: extract_design_context_def extract_dom_structure_def error_shaped_def and_then_def
      dest: dom_result_shape split: sum.splits)

section \<open>The directives of the caller\<close>

lemma stream_with_desktop:
  "map_of shots ''desktop'' = Some png \<Longrightarrow> png \<noteq> [] \<Longrightarrow>
   stream_clone_html_enhanced w url dc ds shots s t = request_completion w url dc png"
  by (simp add: stream_clone_html_enhanced_def)

lemma build_prompt_error_shaped:
  "build_prompt url (error_shaped what e) png = Inr (default_prompt url png)"
  by (simp add: build_prompt_def default_prompt_def error_shaped_def py_get_def py_len_def and_then_def)

lemma analysis_of_error_shaped:
  "analysis_of (error_shaped what e) =
     Inr [(''colors_found'', 0), (''fonts_found'', 0), (''headings_count'', 0), (''images_count'', 0)]"
  by (simp add: analysis_of_def error_shaped_def py_get_def py_len_def and_then_def)

lemma sent_clone_site_enhanced:
  "sent (clone_site_enhanced w url s t) =
     sent (stream_clone_html_enhanced w url (extract_design_context w url)
             (extract_dom_structure w url) (capture_responsive_views w url)
             (if_nonempty (filter_tags s)) (if_nonempty (filter_tags t)))"
  by (simp add: clone_site_enhanced_def Let_def split: option.splits)

lemma sent_screenshot_request:
  "ScreenshotReq u a b \<in> set (sent (stream_clone_html_enhanced w url dc ds shots s t)) \<Longrightarrow>
   a = if_nonempty s \<and> b = if_nonempty t"
  by (auto simp: stream_clone_html_enhanced_def Let_def grab_screenshot_request_def
      sent_request_completion_cases split: sum.splits if_splits)

lemma if_nonempty_Some: "if_nonempty xs = Some ys \<Longrightarrow> xs = Some ys"
  by (auto simp: if_nonempty_def split: option.splits list.splits)

lemma filter_tags_Some: "filter_tags s = Some ys \<Longrightarrow> list_all keep_tag ys"
proof (cases s)
  case None
  then show "filter_tags s = Some ys \<Longrightarrow> list_all keep_tag ys"
    by (simp add: filter_tags_def)
next
  case (Some xs)
  assume "filter_tags s = Some ys"
  with Some have "ys = filter keep_tag xs"
    by (cases xs) (auto simp: filter_tags_def)
  then show "list_all keep_tag ys"
    by (simp add: list_all_iff)
qed

lemma filter_tags_kept:
  "if_nonempty (if_nonempty (filter_tags s)) = Some tags \<Longrightarrow> list_all keep_tag tags"
  by (blast dest: if_nonempty_Some filter_tags_Some)

lemma clone_forwards_kept_tags_only:
  assumes "ScreenshotReq u a b \<in> set (sent (clone_site_enhanced w url s t))"
  shows "(\<forall>tags. a = Some tags \<longrightarrow> list_all keep_tag tags) \<and>
         (\<forall>tags. b = Some tags \<longrightarrow> list_all keep_tag tags)"
  using sent_screenshot_request [OF assms [unfolded sent_clone_site_enhanced]]
  by (auto dest: filter_tags_kept)

lemma blank_views:
  "capture_responsive_views blank_env url = [(''mobile'', []), (''tablet'', []), (''desktop'', [])]"
  by (simp add: capture_responsive_views_eq capture_view_def blank_env_def reply_def
      raise_for_status_def and_then_def)

lemma blank_design:
  "extract_design_context blank_env url =
     error_shaped ''Failed to extract design context: '' (Raised JSONDecodeError ''Expecting value'')"
  by (simp add: extract_design_context_def blank_env_def reply_def
      raise_for_status_def and_then_def json_of_def)

lemma blank_stream:
  "sent (stream_clone_html_enhanced blank_env url (error_shaped what e) ds
           [(''mobile'', []), (''tablet'', []), (''desktop'', [])] s t) =
     [ScreenshotReq url (if_nonempty s) (if_nonempty t), ChatReq (default_prompt url [])]"
  by (simp add: stream_clone_html_enhanced_def grab_screenshot_def grab_screenshot_request_def
      blank_env_def reply_def raise_for_status_def and_then_def Let_def
      sent_request_completion_cases build_prompt_error_shaped)

text \<open>
  Claim C6 holds for \<^verbatim>\<open>/clone\<close> (lemma \<open>clone_forwards_kept_tags_only\<close>) and fails for
  \<^verbatim>\<open>/clone-complete\<close>, which passes the directives on without the filter. With an empty
  desktop screenshot, so that the fallback is taken, an empty directive and a directive whose
  only value is the empty string reach \<^verbatim>\<open>grab_screenshot\<close> through \<^verbatim>\<open>/clone-complete\<close>,
  while \<^verbatim>\<open>/clone\<close> drops both.
\<close>

theorem complete_forwards_unfiltered_tags:
  "fst (clone_site_complete blank_env ''http://a'' (Some [[]]) (Some [[(''content'', JStr [])]])) =
     [ScreenshotReq ''http://a'' (Some [[]]) (Some [[(''content'', JStr [])]]),
      ChatReq (default_prompt ''http://a'' [])]
   \<and> sent (clone_site_enhanced blank_env ''http://a'' (Some [[]]) (Some [[(''content'', JStr [])]])) =
     [ScreenshotReq ''http://a'' None None, ChatReq (default_prompt ''http://a'' [])]"
  by (simp add: clone_site_complete_def sent_clone_site_enhanced Let_def blank_views blank_design
      blank_stream if_nonempty_def filter_tags_def keep_tag_def dict_values_def)

section \<open>The two delivery modes\<close>

lemma read_events_extends:
  "\<exists>zs. fst (read_events ld (pre @ rest)) = fst (read_events ld pre) @ zs"
  by (induction pre) (auto split: event.splits prod.splits)

lemma relay_response_returned:
  "relay_response ld resp = (ys, None) \<Longrightarrow> \<exists>zs. ys = zs @ [JStr closing_tag]"
  by (auto simp: relay_response_def split: if_splits prod.splits option.splits)

lemma request_completion_returned:
  "raised (request_completion w url dc png) = None \<Longrightarrow>
   \<exists>zs. chunks (request_completion w url dc png) = zs @ [JStr closing_tag]"
  by (auto simp: request_completion_def split: sum.splits prod.splits
      dest: relay_response_returned)

lemma stream_returned:
  "raised (stream_clone_html_enhanced w url dc ds shots s t) = None \<Longrightarrow>
   \<exists>zs. chunks (stream_clone_html_enhanced w url dc ds shots s t) = zs @ [JStr closing_tag]"
  by (auto simp: stream_clone_html_enhanced_def Let_def split: sum.splits if_splits
      dest: request_completion_returned)

text \<open>
  The generator of \<^verbatim>\<open>/clone\<close> run to its end never raises and always yields at least one
  chunk: the increments of the pipeline in their order, followed by the diagnostic comment
  when the pipeline raised.
\<close>

lemma clone_relays_and_reports:
  "raised (clone_site_enhanced w url s t) = None \<and>
   chunks (clone_site_enhanced w url s t) \<noteq> [] \<and>
   (raised (stream_clone_html_enhanced w url (extract_design_context w url)
              (extract_dom_structure w url) (capture_responsive_views w url)
              (if_nonempty (filter_tags s)) (if_nonempty (filter_tags t))) = None \<longrightarrow>
      chunks (clone_site_enhanced w url s t) =
        chunks (stream_clone_html_enhanced w url (extract_design_context w url)
              (extract_dom_structure w url) (capture_responsive_views w url)
              (if_nonempty (filter_tags s)) (if_nonempty (filter_tags t))) \<and>
      last (chunks (clone_site_enhanced w url s t)) = JStr closing_tag) \<and>
   (\<forall>exc. raised (stream_clone_html_enhanced w url (extract_design_context w url)
              (extract_dom_structure w url) (capture_responsive_views w url)
              (if_nonempty (filter_tags s)) (if_nonempty (filter_tags t))) = Some exc \<longrightarrow>
      chunks (clone_site_enhanced w url s t) =
        chunks (stream_clone_html_enhanced w url (extract_design_context w url)
              (extract_dom_structure w url) (capture_responsive_views w url)
              (if_nonempty (filter_tags s)) (if_nonempty (filter_tags t)))
        @ [JStr (''<!-- Error: '' @ exn_str exc @ '' -->'')])"
proof -
  let ?r = "stream_clone_html_enhanced w url (extract_design_context w url)
              (extract_dom_structure w url) (capture_responsive_views w url)
              (if_nonempty (filter_tags s)) (if_nonempty (filter_tags t))"
  show ?thesis
  proof (cases "raised ?r")
    case None
    then obtain zs where "chunks ?r = zs @ [JStr closing_tag]"
      using stream_returned by blast
    with None show ?thesis
      by (simp add: clone_site_enhanced_def Let_def)
  next
    case (Some exc)
    then show ?thesis
      by (simp add: clone_site_enhanced_def Let_def diagnostic_def)
  qed
qed

lemma cut_views:
  "map_of (capture_responsive_views cut_env url) ''desktop'' = Some ''QUJD''"
  by (simp add: capture_responsive_views_eq capture_view_def cut_env_def reply_fields
      raise_for_status_def and_then_def b64encode_ABC del: b64encode.simps)

lemma cut_design:
  "extract_design_context cut_env url =
     error_shaped ''Failed to extract design context: '' (Raised JSONDecodeError ''Expecting value'')"
  by (simp add: extract_design_context_def cut_env_def reply_def
      raise_for_status_def and_then_def json_of_def)

lemma on_lost: "on_line ld (ConnectionLost m) = Fail (Raised RequestException m)"
  by (simp add: on_line_def)

lemma cut_env_fields:
  "loads cut_env = json_decode"
  "post cut_env (ChatReq p) = Inr (ok_response [line_A, ConnectionLost ''reset'', line_B])"
  by (simp_all add: cut_env_def)

lemma cut_stream:
  "stream_clone_html_enhanced cut_env url (error_shaped what e) ds
     (capture_responsive_views cut_env url) s t =
   \<lparr>sent = [ChatReq (default_prompt url ''QUJD'')], chunks = [JStr ''A''],
    raised = Some (Raised RequestException ''reset'')\<rparr>"
proof -
  have "relay_response json_decode (ok_response [line_A, ConnectionLost ''reset'', line_B]) =
      ([JStr ''A''], Some (Raised RequestException ''reset''))"
    by (simp add: relay_response_def ok_response_def on_A on_lost)
  then have "request_completion cut_env url (error_shaped what e) ''QUJD'' =
   \<lparr>sent = [ChatReq (default_prompt url ''QUJD'')], chunks = [JStr ''A''],
    raised = Some (Raised RequestException ''reset'')\<rparr>"
    by (simp add: request_completion_def build_prompt_error_shaped cut_env_fields)
  then show ?thesis
    by (simp add: stream_with_desktop [OF cut_views])
qed

text \<open>
  The chunk-by-chunk run and the finished run agree: what is written to the connection is
  the list of chunks of the finished run, sent until a chunk cannot be encoded.
\<close>

lemma transmit_last: "transmit ld (c, Exhausted) = send_all [c]"
  by (simp add: transmit.simps split: sum.splits)

lemma transmit_advance: "transmit ld (advance ld ls) = send_all (finished_chunks ld ls)"
proof (induction ls)
  case Nil
  show ?case by (simp add: finished_chunks_def transmit_last)
next
  case (Cons raw rest)
  show ?case
  proof (cases "on_line ld raw")
    case Ignore
    with Cons show ?thesis by (simp add: finished_chunks_def)
  next
    case (Yield t)
    with Cons show ?thesis
      by (auto simp: finished_chunks_def transmit.simps [of ld t "Reading rest"]
          split: sum.splits prod.splits option.splits)
  next
    case Done
    then show ?thesis by (simp add: finished_chunks_def transmit_last)
  next
    case (Fail e)
    then show ?thesis by (simp add: finished_chunks_def transmit_last)
  qed
qed

lemma stream_by_open_stream:
  "(chunks (stream_clone_html_enhanced w url dc ds shots s t),
    raised (stream_clone_html_enhanced w url dc ds shots s t)) =
     (case open_stream w url dc shots s t of
        Inl e \<Rightarrow> ([], Some e)
      | Inr resp \<Rightarrow>
          (case read_events (loads w) (resp_lines resp) of
             (ys, None) \<Rightarrow> (ys @ [JStr closing_tag], None)
           | (ys, Some e) \<Rightarrow> (ys, Some e)))"
  by (auto simp: stream_clone_html_enhanced_def open_stream_def request_completion_def
      relay_response_def grab_screenshot_def Let_def and_then_def
      split: sum.splits prod.splits option.splits if_splits)

lemma clone_chunks_by_steps:
  "chunks (clone_site_enhanced w url s t) =
     (case open_stream w url (extract_design_context w url) (capture_responsive_views w url)
             (if_nonempty (filter_tags s)) (if_nonempty (filter_tags t)) of
        Inl exc \<Rightarrow> [diagnostic exc]
      | Inr resp \<Rightarrow> finished_chunks (loads w) (resp_lines resp))"
  using stream_by_open_stream [of w url "extract_design_context w url" "extract_dom_structure w url"
      "capture_responsive_views w url" "if_nonempty (filter_tags s)" "if_nonempty (filter_tags t)"]
  by (auto simp: clone_site_enhanced_def Let_def finished_chunks_def
      split: sum.splits prod.splits option.splits)

lemma clone_response_sends_chunks:
  "clone_response w url s t = send_all (chunks (clone_site_enhanced w url s t))"
  by (simp add: clone_response_def start_clone_def clone_chunks_by_steps transmit_advance
      transmit_last split: sum.splits)

text \<open>
  An increment is handed over by the resumption that reads its line, whatever the lines
  after it are, and when it is a string it is the next chunk written to the connection.
\<close>

lemma advance_hands_over:
  "list_all (\<lambda>raw. on_line ld raw = Ignore) pre \<Longrightarrow> on_line ld l = Yield t \<Longrightarrow>
   advance ld (pre @ l # rest) = (t, Reading rest)"
  by (induction pre) auto

lemma first_chunk_written:
  assumes "list_all (\<lambda>raw. on_line ld raw = Ignore) pre" and "on_line ld l = Yield (JStr b)"
      and "\<not> has_surrogate b"
  shows "\<exists>bs r. transmit ld (advance ld (pre @ l # rest)) = (b # bs, r)"
  using assms
  by (auto simp: advance_hands_over transmit.simps [of ld "JStr b" "Reading rest"] encode_chunk_def
      split: prod.splits)

lemma clone_response_of_strings:
  assumes "chunks (clone_site_enhanced w url s t) = map JStr texts"
      and "list_all (\<lambda>b. \<not> has_surrogate b) texts"
  shows "clone_response w url s t = (texts, None)"
proof -
  have "send_all (map JStr texts) = (texts, None)"
    using assms(2) by (induction texts) (simp_all add: encode_chunk_def)
  with assms(1) show ?thesis by (simp add: clone_response_sends_chunks)
qed

lemma on_parts:
  "on_line json_decode line_parts =
     Yield (JArr [JObj [(''type'', JStr ''text''), (''text'', JStr ''x'')]])"
  by code_simp

lemma parts_env_fields:
  "loads parts_env = json_decode"
  "post parts_env (ChatReq p) = Inr (ok_response [line_A, line_parts, line_B, line_DONE])"
  by (simp_all add: parts_env_def)

lemma parts_views:
  "map_of (capture_responsive_views parts_env url) ''desktop'' = Some ''QUJD''"
  by (simp add: capture_responsive_views_eq capture_view_def parts_env_def reply_fields
      raise_for_status_def and_then_def b64encode_ABC del: b64encode.simps)

lemma parts_design:
  "extract_design_context parts_env url =
     error_shaped ''Failed to extract design context: '' (Raised JSONDecodeError ''Expecting value'')"
  by (simp add: extract_design_context_def parts_env_def reply_def
      raise_for_status_def and_then_def json_of_def)

lemma parts_stream:
  "stream_clone_html_enhanced parts_env url (error_shaped what e) ds
     (capture_responsive_views parts_env url) s t =
   \<lparr>sent = [ChatReq (default_prompt url ''QUJD'')],
    chunks = [JStr ''A'', JArr [JObj [(''type'', JStr ''text''), (''text'', JStr ''x'')]],
              JStr ''B'', JStr closing_tag],
    raised = None\<rparr>"
proof -
  have "relay_response json_decode (ok_response [line_A, line_parts, line_B, line_DONE]) =
      ([JStr ''A'', JArr [JObj [(''type'', JStr ''text''), (''text'', JStr ''x'')]],
        JStr ''B'', JStr closing_tag], None)"
    by (simp add: relay_response_def ok_response_def on_A on_B on_parts on_DONE)
  then have "request_completion parts_env url (error_shaped what e) ''QUJD'' =
   \<lparr>sent = [ChatReq (default_prompt url ''QUJD'')],
    chunks = [JStr ''A'', JArr [JObj [(''type'', JStr ''text''), (''text'', JStr ''x'')]],
              JStr ''B'', JStr closing_tag],
    raised = None\<rparr>"
    by (simp add: request_completion_def build_prompt_error_shaped parts_env_fields)
  then show ?thesis
    by (simp add: stream_with_desktop [OF parts_views])
qed

lemma parts_chunks:
  "chunks (clone_site_enhanced parts_env ''http://a'' None None) =
     [JStr ''A'', JArr [JObj [(''type'', JStr ''text''), (''text'', JStr ''x'')]],
      JStr ''B'', JStr closing_tag]"
  by (simp add: clone_site_enhanced_def Let_def parts_design parts_stream)

lemma cut_chunks:
  "chunks (clone_site_enhanced cut_env ''http://a'' None None) =
     [JStr ''A'', JStr ''<!-- Error: reset -->'']"
  by (simp add: clone_site_enhanced_def Let_def cut_design cut_stream diagnostic_def)

text \<open>
  Claim C7 holds when the stream breaks in the middle: the response is \<open>A\<close> and the
  diagnostic comment, and it ends normally. It fails when an increment is not a string, which
  the generator yields although it is declared to yield strings: with a content that is a
  list of parts between \<open>A\<close> and \<open>B\<close>, \<open>A\<close> is written, then the encoding of the list raises
  an \<^verbatim>\<open>AttributeError\<close> outside the generator, where its handler does not reach; the response
  is cut after \<open>A\<close>, without \<open>B\<close>, without the closing tag and without a diagnostic comment.
\<close>

theorem clone_aborts_on_non_string:
  "clone_response parts_env ''http://a'' None None =
     ([''A''], Some (Raised AttributeError
                      (quoted ''list'' @ '' object has no attribute '' @ quoted ''encode'')))
   \<and> clone_response cut_env ''http://a'' None None = ([''A'', ''<!-- Error: reset -->''], None)"
  by (simp add: clone_response_sends_chunks parts_chunks cut_chunks encode_chunk_def type_name_def)

lemma join_with_empty: "join_with [] ss = concat ss"
  by (induction "[] :: string" ss rule: join_with.induct) simp_all

text \<open>
  Claim C8. When \<^verbatim>\<open>/clone-complete\<close> returns a document, the pipeline has not raised, all
  its increments are strings, the field \<^verbatim>\<open>html\<close> is their concatenation in order, and the
  document carries the three extraction artifacts and the analysis summary. When it fails,
  the failure is an \<^verbatim>\<open>HTTPException\<close> with status 500 and a message; it fails in particular
  whenever the pipeline raises, with the message of that exception, and it returns the
  document whenever the pipeline returns, the increments are strings and the summary can be
  computed.
\<close>

theorem complete_concatenates_or_fails:
  "(\<forall>c. snd (clone_site_complete w url s t) = Inr c \<longrightarrow>
      raised (stream_clone_html_enhanced w url (extract_design_context w url)
                (extract_dom_structure w url) (capture_responsive_views w url) s t) = None \<and>
      (\<exists>texts. chunks (stream_clone_html_enhanced w url (extract_design_context w url)
                (extract_dom_structure w url) (capture_responsive_views w url) s t)
                = map JStr texts \<and> html c = concat texts) \<and>
      design_context_of c = extract_design_context w url \<and>
      dom_structure_of c = extract_dom_structure w url \<and>
      screenshots_of c = capture_responsive_views w url \<and>
      analysis_of (extract_design_context w url) = Inr (analysis c)) \<and>
   (\<forall>e. snd (clone_site_complete w url s t) = Inl e \<longrightarrow>
      (\<exists>m. e = HTTPException 500 (''Failed to clone website: '' @ m))) \<and>
   (\<forall>exc. raised (stream_clone_html_enhanced w url (extract_design_context w url)
                (extract_dom_structure w url) (capture_responsive_views w url) s t) = Some exc \<longrightarrow>
      snd (clone_site_complete w url s t) =
        Inl (HTTPException 500 (''Failed to clone website: '' @ exn_str exc))) \<and>
   (\<forall>texts a. raised (stream_clone_html_enhanced w url (extract_design_context w url)
                (extract_dom_structure w url) (capture_responsive_views w url) s t) = None \<and>
      chunks (stream_clone_html_enhanced w url (extract_design_context w url)
                (extract_dom_structure w url) (capture_responsive_views w url) s t)
        = map JStr texts \<and>
      analysis_of (extract_design_context w url) = Inr a \<longrightarrow>
      snd (clone_site_complete w url s t) =
        Inr \<lparr>html = concat texts, design_context_of = extract_design_context w url,
             dom_structure_of = extract_dom_structure w url,
             screenshots_of = capture_responsive_views w url, analysis = a\<rparr>)"
proof (intro conjI allI impI)
  fix c assume "snd (clone_site_complete w url s t) = Inr c"
  then show "raised (stream_clone_html_enhanced w url (extract_design_context w url)
                (extract_dom_structure w url) (capture_responsive_views w url) s t) = None"
    and "\<exists>texts. chunks (stream_clone_html_enhanced w url (extract_design_context w url)
                (extract_dom_structure w url) (capture_responsive_views w url) s t)
                = map JStr texts \<and> html c = concat texts"
    and "design_context_of c = extract_design_context w url"
    and "dom_structure_of c = extract_dom_structure w url"
    and "screenshots_of c = capture_responsive_views w url"
    and "analysis_of (extract_design_context w url) = Inr (analysis c)"
    by (auto simp: clone_site_complete_def Let_def and_then_def join_with_empty
        split: option.splits sum.splits dest!: py_join_Inr)
next
  fix e assume "snd (clone_site_complete w url s t) = Inl e"
  then show "\<exists>m. e = HTTPException 500 (''Failed to clone website: '' @ m)"
    by (auto simp: clone_site_complete_def Let_def split: sum.splits)
next
  fix exc
  assume "raised (stream_clone_html_enhanced w url (extract_design_context w url)
                (extract_dom_structure w url) (capture_responsive_views w url) s t) = Some exc"
  then show "snd (clone_site_complete w url s t) =
        Inl (HTTPException 500 (''Failed to clone website: '' @ exn_str exc))"
    by (simp add: clone_site_complete_def Let_def)
next
  fix texts a
  assume "raised (stream_clone_html_enhanced w url (extract_design_context w url)
                (extract_dom_structure w url) (capture_responsive_views w url) s t) = None \<and>
      chunks (stream_clone_html_enhanced w url (extract_design_context w url)
                (extract_dom_structure w url) (capture_responsive_views w url) s t)
        = map JStr texts \<and>
      analysis_of (extract_design_context w url) = Inr a"
  then show "snd (clone_site_complete w url s t) =
        Inr \<lparr>html = concat texts, design_context_of = extract_design_context w url,
             dom_structure_of = extract_dom_structure w url,
             screenshots_of = capture_responsive_views w url, analysis = a\<rparr>"
    by (simp add: clone_site_complete_def Let_def and_then_def py_join_map_JStr join_with_empty)
qed

lemma dark_env_fields:
  "loads dark_env = json_decode"
  "post dark_env (ChatReq p) = Inr (ok_response [line_A, line_DONE])"
  "post dark_env (FunctionReq u) = Inr (reply 200 ''ABC'')"
  by (simp_all add: dark_env_def)

lemma dark_views:
  "map_of (capture_responsive_views dark_env url) ''desktop'' = Some ''Error: timed out''"
  by (simp add: capture_responsive_views_eq capture_view_def dark_env_post and_then_def)

lemma dark_design:
  "extract_design_context dark_env url =
     error_shaped ''Failed to extract design context: '' (Raised JSONDecodeError ''Expecting value'')"
  by (simp add: extract_design_context_def dark_env_fields reply_def
      raise_for_status_def and_then_def json_of_def)

lemma dark_stream:
  "stream_clone_html_enhanced dark_env url (error_shaped what e) ds
     (capture_responsive_views dark_env url) s t =
   \<lparr>sent = [ChatReq (default_prompt url ''Error: timed out'')],
    chunks = map JStr [''A'', closing_tag], raised = None\<rparr>"
proof -
  have "relay_response json_decode (ok_response [line_A, line_DONE]) =
      ([JStr ''A'', JStr closing_tag], None)"
    by (simp add: relay_response_def ok_response_def on_A on_DONE)
  then have "request_completion dark_env url (error_shaped what e) ''Error: timed out'' =
   \<lparr>sent = [ChatReq (default_prompt url ''Error: timed out'')],
    chunks = map JStr [''A'', closing_tag], raised = None\<rparr>"
    by (simp add: request_completion_def build_prompt_error_shaped dark_env_fields)
  then show ?thesis
    by (simp add: stream_with_desktop [OF dark_views])
qed

lemma show_nat_503: "show_nat 503 = ''503''"
  by code_simp

lemma busy_env_fields:
  "loads busy_env = json_decode"
  "post busy_env req = Inr (reply 503 ''busy'')"
  by (simp_all add: busy_env_def)

lemma busy_views:
  "map_of (capture_responsive_views busy_env url) ''desktop'' =
     Some (''Error: 503 Server Error: Reason for url: http://service'')"
  by (simp add: capture_responsive_views_eq capture_view_def busy_env_fields and_then_def
      raise_for_status_def reply_def show_nat_503)

lemma busy_design:
  "extract_design_context busy_env url =
     error_shaped ''Failed to extract design context: ''
       (Raised HTTPError ''503 Server Error: Reason for url: http://service'')"
  by (simp add: extract_design_context_def busy_env_fields reply_def
      raise_for_status_def and_then_def show_nat_503)

lemma busy_stream:
  "stream_clone_html_enhanced busy_env url (error_shaped what e) ds
     (capture_responsive_views busy_env url) s t =
   \<lparr>sent = [ChatReq (default_prompt url ''Error: 503 Server Error: Reason for url: http://service'')],
    chunks = [], raised = Some (HTTPException 503 ''busy'')\<rparr>"
proof -
  have "relay_response json_decode (reply 503 ''busy'') = ([], Some (HTTPException 503 ''busy''))"
    by (simp add: relay_response_def reply_def)
  then have "request_completion busy_env url (error_shaped what e)
      ''Error: 503 Server Error: Reason for url: http://service'' =
   \<lparr>sent = [ChatReq (default_prompt url ''Error: 503 Server Error: Reason for url: http://service'')],
    chunks = [], raised = Some (HTTPException 503 ''busy'')\<rparr>"
    by (simp add: request_completion_def build_prompt_error_shaped busy_env_fields)
  then show ?thesis
    by (simp add: stream_with_desktop [OF busy_views])
qed

text \<open>A run that returns the document, and a run on a model endpoint that answers 503.\<close>

theorem complete_concatenates_or_fails_witness:
  "(\<exists>c. snd (clone_site_complete dark_env ''http://a'' None None) = Inr c \<and>
        html c = ''A'' @ [CHR 0x0A] @ ''</html>'' \<and>
        screenshots_of c = capture_responsive_views dark_env ''http://a'') \<and>
   snd (clone_site_complete busy_env ''http://a'' None None) =
     Inl (HTTPException 500 ''Failed to clone website: 503: busy'')"
proof -
  note ok = complete_concatenates_or_fails [of dark_env "''http://a''" None None,
      THEN conjunct2, THEN conjunct2, THEN conjunct2, rule_format,
      of "[''A'', closing_tag]"
         "[(''colors_found'', 0), (''fonts_found'', 0), (''headings_count'', 0), (''images_count'', 0)]"]
  have 1: "\<exists>c. snd (clone_site_complete dark_env ''http://a'' None None) = Inr c \<and>
        html c = ''A'' @ [CHR 0x0A] @ ''</html>'' \<and>
        screenshots_of c = capture_responsive_views dark_env ''http://a''"
    using ok by (simp add: dark_design dark_stream analysis_of_error_shaped closing_tag_def)
  note bad = complete_concatenates_or_fails [of busy_env "''http://a''" None None,
      THEN conjunct2, THEN conjunct2, THEN conjunct1, rule_format,
      of "HTTPException 503 ''busy''"]
  have 2: "snd (clone_site_complete busy_env ''http://a'' None None) =
     Inl (HTTPException 500 ''Failed to clone website: 503: busy'')"
    using bad by (simp add: busy_design busy_stream show_nat_503)
  from 1 2 show ?thesis by blast
qed

theorem extraction_never_raises_witness:
  "extract_design_context busy_env ''http://a'' =
     JObj [(''error'', JStr (''Failed to extract design context: '' @
             ''503 Server Error: Reason for url: http://service''))] \<and>
   extract_dom_structure busy_env ''http://a'' =
     JObj [(''error'', JStr (''Failed to extract DOM: '' @
             ''503 Server Error: Reason for url: http://service''))] \<and>
   extract_design_context (echo_env sample_content) ''http://a'' = sample_content"
proof -
  have f: "and_then (and_then (post busy_env req) raise_for_status) json_of =
        Inl (Raised HTTPError ''503 Server Error: Reason for url: http://service'')" for req
    by (simp add: busy_env_fields reply_def raise_for_status_def and_then_def show_nat_503)
  note b = extraction_never_raises [of busy_env "''http://a''"]
  note g = extraction_never_raises [of "echo_env sample_content" "''http://a''"]
  have 1: "extract_design_context busy_env ''http://a'' =
     JObj [(''error'', JStr (''Failed to extract design context: '' @
             ''503 Server Error: Reason for url: http://service''))]"
    using b [THEN conjunct1] by (simp add: f)
  have 2: "extract_dom_structure busy_env ''http://a'' =
     JObj [(''error'', JStr (''Failed to extract DOM: '' @
             ''503 Server Error: Reason for url: http://service''))]"
    using b [THEN conjunct2] by (simp add: f)
  have 3: "extract_design_context (echo_env sample_content) ''http://a'' = sample_content"
    using g [THEN conjunct1] by (simp add: echo_env_success)
  from 1 2 3 show ?thesis by blast
qed

end
